theory Spec2Isabelle
  imports Main
begin

section \<open>The Ansible provisioner (provisioner.go)\<close>

text \<open>
  A shallow embedding of \<^verbatim>\<open>provisioner.go\<close>. Go strings are byte lists (\<open>string\<close>),
  Go's \<open>int\<close> is \<open>int\<close> (no arithmetic is done on it, it is only compared and printed),
  a Go \<open>error\<close> return is an \<open>error option\<close> (\<open>None\<close> is \<open>nil\<close>), and a pair
  \<open>(value, error)\<close> is \<open>error + value\<close>.
\<close>

subsection \<open>Values and errors\<close>

text \<open>
  A value of Go's \<open>interface{}\<close> as \<open>schema.ResourceData.Get\<close> hands it out. A Go map is
  kept as the list of its entries; only its length and its JSON encoding are used.
\<close>

datatype gval =
    GNil
  | GString string
  | GInt int
  | GBool bool
  | GList "gval list"
  | GMap "(string \<times> gval) list"

text \<open>
  Errors. \<open>External\<close> is an error value handed back by a collaborator (the communicator,
  the operating system, the JSON encoder); the others are the \<open>fmt.Errorf\<close> calls of the
  source, one constructor per format string, holding the formatted operands.
\<close>

datatype error =
    External string
  | ModuleNotFound string
    \<comment> \<open>\<open>"Ansible module not found at path: [%s]"\<close>\<close>
  | ErrorExecutingCommand string error
    \<comment> \<open>\<open>"Error executing command %q: %v"\<close>\<close>
  | NonZeroExit string int
    \<comment> \<open>\<open>"Command %q exited with non-zero exit status: %d"\<close>\<close>
  | TemplateError string string
    \<comment> \<open>\<open>"Error executing '<name>' template: %s"\<close>\<close>

text \<open>
  The two ways \<open>decodeConfig\<close> panics: a failed type assertion \<open>v.(T)\<close> (with the name of
  \<open>T\<close>), and the \<open>default\<close> case of \<open>getStringList\<close> and \<open>getStringMap\<close>.
\<close>

datatype panic = InterfaceConversion string | UnsupportedType gval

subsection \<open>Library functions used by the source\<close>

text \<open>\<open>strings.Join\<close>.\<close>

fun strings_Join :: "string list \<Rightarrow> string \<Rightarrow> string" where
  "strings_Join [] sep = []"
| "strings_Join [x] sep = x"
| "strings_Join (x # y # ys) sep = x @ sep @ strings_Join (y # ys) sep"

text \<open>The verb \<open>%d\<close> of \<open>fmt\<close>: a decimal numeral, with a minus sign when negative.\<close>

definition digit_char :: "nat \<Rightarrow> char" where
  "digit_char n = ''0123456789'' ! n"

fun decimal :: "nat \<Rightarrow> string" where
  "decimal n = (if n < 10 then [digit_char n] else decimal (n div 10) @ [digit_char (n mod 10)])"

declare decimal.simps [simp del]

definition fmt_d :: "int \<Rightarrow> string" where
  "fmt_d i = (if i < 0 then CHR ''-'' # decimal (nat (- i)) else decimal (nat i))"

text \<open>
  \<open>path/filepath\<close> on a Unix host: \<open>Clean\<close>, \<open>Join\<close>, \<open>Dir\<close> and \<open>Base\<close>, after the
  rules of the package documentation.
\<close>

fun split_slash :: "string \<Rightarrow> string \<Rightarrow> string list" where
  "split_slash [] cur = [cur]"
| "split_slash (c # cs) cur =
     (if c = CHR ''/'' then cur # split_slash cs [] else split_slash cs (cur @ [c]))"

fun clean_elems :: "bool \<Rightarrow> string list \<Rightarrow> string list \<Rightarrow> string list" where
  "clean_elems rooted [] st = rev st"
| "clean_elems rooted (e # es) st =
     (if e = [] \<or> e = ''.'' then clean_elems rooted es st
      else if e = ''..'' then
        (case st of
           [] \<Rightarrow> if rooted then clean_elems rooted es [] else clean_elems rooted es [e]
         | t # ts \<Rightarrow> if t = ''..'' then clean_elems rooted es (e # st)
                    else clean_elems rooted es ts)
      else clean_elems rooted es (e # st))"

definition filepath_Clean :: "string \<Rightarrow> string" where
  "filepath_Clean path =
     (let rooted = (path \<noteq> [] \<and> hd path = CHR ''/'');
          out = (if rooted then ''/'' else []) @
                strings_Join (clean_elems rooted (split_slash path []) []) ''/''
      in if out = [] then ''.'' else out)"

fun filepath_Join :: "string list \<Rightarrow> string" where
  "filepath_Join [] = []"
| "filepath_Join (e # es) =
     (if e = [] then filepath_Join es else filepath_Clean (strings_Join (e # es) ''/''))"

text \<open>The part of a path up to and including its last slash (empty without a slash).\<close>

fun upto_last_slash :: "string \<Rightarrow> string" where
  "upto_last_slash [] = []"
| "upto_last_slash (c # cs) =
     (if CHR ''/'' \<in> set (c # cs) then
        (if c = CHR ''/'' \<and> CHR ''/'' \<notin> set cs then [c] else c # upto_last_slash cs)
      else [])"

definition filepath_Dir :: "string \<Rightarrow> string" where
  "filepath_Dir path = filepath_Clean (upto_last_slash path)"

fun strip_trailing_slashes :: "string \<Rightarrow> string" where
  "strip_trailing_slashes s =
     (if s \<noteq> [] \<and> last s = CHR ''/'' then strip_trailing_slashes (butlast s) else s)"

declare strip_trailing_slashes.simps [simp del]

definition filepath_Base :: "string \<Rightarrow> string" where
  "filepath_Base path =
     (if path = [] then ''.''
      else let p = last (split_slash (strip_trailing_slashes path) [])
           in if p = [] then ''/'' else p)"

subsection \<open>The configuration\<close>

record provisioner =
  Playbook :: string
  Hosts :: "string list"
  Groups :: "string list"
  Tags :: "string list"
  SkipTags :: "string list"
  StartAtTask :: string
  Limit :: string
  Forks :: int
  ExtraVars :: "(string \<times> gval) list"
  Verbose :: bool
  ForceHandlers :: bool
  Become :: bool
  BecomeMethod :: string
  BecomeUser :: string
  VaultPasswordFile :: string
  useSudo :: bool
  skipInstall :: bool
  skipCleanup :: bool
  installVersion :: string

definition bootstrapDirectory :: string where
  "bootstrapDirectory = ''/tmp/ansible-terraform-bootstrap''"

definition inventoryFilePath :: string where
  "inventoryFilePath = filepath_Join [bootstrapDirectory, ''.inventory-ansible-bootstrap/hosts'']"

subsection \<open>commandBuilder\<close>

text \<open>
  \<open>json.Marshal\<close> is a parameter: the encoder of \<open>encoding/json\<close>, which either fails or
  returns the encoding.
\<close>

type_synonym marshal = "(string \<times> gval) list \<Rightarrow> error + string"

definition commandBuilder ::
  "marshal \<Rightarrow> provisioner \<Rightarrow> string \<Rightarrow> string \<Rightarrow> error + string" where
  "commandBuilder marshal p playbookFile uploadedVaultPasswordFilePath =
     (let command = ''ansible-playbook '' @ playbookFile;
          command = command @ '' --inventory-file='' @ inventoryFilePath
      in case (if length (ExtraVars p) > 0 then
                 (case marshal (ExtraVars p) of
                    Inl err \<Rightarrow> Inl err
                  | Inr extraVars \<Rightarrow>
                      Inr (command @ '' --extra-vars='' @ [CHR 0x27] @ extraVars @ [CHR 0x27]))
               else Inr command) of
           Inl err \<Rightarrow> Inl err
         | Inr command \<Rightarrow>
     (let command = (if length (SkipTags p) > 0
                     then command @ '' --skip-tags='' @ strings_Join (SkipTags p) '',''
                     else command);
          command = (if length (Tags p) > 0
                     then command @ '' --tags='' @ strings_Join (Tags p) '',''
                     else command);
          command = (if length uploadedVaultPasswordFilePath > 0
                     then command @ '' --vault-password-file='' @ uploadedVaultPasswordFilePath
                     else command);
          command = (if length (StartAtTask p) > 0
                     then command @ '' --start-at-task='' @ StartAtTask p
                     else command);
          command = (if length (Limit p) > 0
                     then command @ '' --limit='' @ Limit p
                     else command);
          command = (if Forks p > 0
                     then command @ '' --forks='' @ fmt_d (Forks p)
                     else command);
          command = (if Verbose p then command @ '' --verbose'' else command);
          command = (if ForceHandlers p then command @ '' --force-handlers'' else command);
          command = (if Become p
                     then command @ '' --become --become-method='' @ [CHR 0x27] @ BecomeMethod p
                          @ [CHR 0x27] @ '' --become-user='' @ [CHR 0x27] @ BecomeUser p
                          @ [CHR 0x27]
                     else command)
      in Inr command))"

subsection \<open>Templates\<close>

text \<open>
  The fragment of \<open>text/template\<close> that the two templates of the source use: text, the
  actions \<open>{{.}}\<close>, \<open>{{.Field}}\<close>, \<open>{{$v := pipeline}}\<close>, \<open>{{range pipeline}}\<close> ...
  \<open>{{end}}\<close> over \<open>.\<close>, \<open>.Field\<close>, \<open>$v\<close> and \<open>$v.Field\<close>, and the trim markers
  \<open>{{- \<close> and \<open> -}}\<close>. A template is lexed into text and action items, the trim markers
  are applied to the neighbouring text, and the items are parsed into a tree.
\<close>

datatype item = ItemText string | ItemAction string

definition text_item :: "string \<Rightarrow> item list" where
  "text_item s = (if s = [] then [] else [ItemText s])"

text \<open>
  \<open>lex_raw inAction acc s\<close> cuts \<open>s\<close> at the delimiters \<open>{{\<close> and \<open>}}\<close>; \<open>acc\<close> is the
  text or action read so far. An action that is never closed is an error (\<open>None\<close>).
\<close>

fun lex_raw :: "bool \<Rightarrow> string \<Rightarrow> string \<Rightarrow> item list option" where
  "lex_raw inAction acc [] = (if inAction then None else Some (text_item acc))"
| "lex_raw inAction acc [c] = (if inAction then None else Some (text_item (acc @ [c])))"
| "lex_raw inAction acc (c # d # cs) =
     (if \<not> inAction \<and> c = CHR ''{'' \<and> d = CHR ''{'' then
        map_option (\<lambda>is. text_item acc @ is) (lex_raw True [] cs)
      else if inAction \<and> c = CHR ''}'' \<and> d = CHR ''}'' then
        map_option (\<lambda>is. ItemAction acc # is) (lex_raw False [] cs)
      else lex_raw inAction (acc @ [c]) (d # cs))"

text \<open>White space for trimming: space, horizontal tab, carriage return and newline.\<close>

definition is_space :: "char \<Rightarrow> bool" where
  "is_space c = (c = CHR '' '' \<or> c = CHR 0x09 \<or> c = CHR 0x0D \<or> c = CHR 0x0A)"

definition trim_left :: "string \<Rightarrow> string" where
  "trim_left s = dropWhile is_space s"

definition trim_right :: "string \<Rightarrow> string" where
  "trim_right s = rev (dropWhile is_space (rev s))"

text \<open>
  An action that starts with a minus sign and white space trims the text before it; one
  that ends with white space and a minus sign trims the text after it.
\<close>

definition has_left_trim :: "string \<Rightarrow> bool" where
  "has_left_trim a = (case a of c # d # _ \<Rightarrow> c = CHR ''-'' \<and> is_space d | _ \<Rightarrow> False)"

definition has_right_trim :: "string \<Rightarrow> bool" where
  "has_right_trim a = (case rev a of c # d # _ \<Rightarrow> c = CHR ''-'' \<and> is_space d | _ \<Rightarrow> False)"

definition strip_markers :: "string \<Rightarrow> string" where
  "strip_markers a =
     (let a = (if has_left_trim a then tl a else a);
          a = (if has_right_trim a then butlast a else a)
      in a)"

fun next_trims_left :: "item list \<Rightarrow> bool" where
  "next_trims_left (ItemAction a # _) = has_left_trim a"
| "next_trims_left _ = False"

fun apply_trim :: "bool \<Rightarrow> item list \<Rightarrow> item list" where
  "apply_trim pending [] = []"
| "apply_trim pending (ItemText t # rest) =
     (let t = (if pending then trim_left t else t);
          t = (if next_trims_left rest then trim_right t else t)
      in text_item t @ apply_trim False rest)"
| "apply_trim pending (ItemAction a # rest) =
     ItemAction (strip_markers a) # apply_trim (has_right_trim a) rest"

definition lex :: "string \<Rightarrow> item list option" where
  "lex s = map_option (apply_trim False) (lex_raw False [] s)"

datatype expr = DotNode | FieldNode string | VariableNode string | VariableFieldNode string string

datatype node =
    TextNode string
  | ActionNode expr
  | VarDeclNode string expr
  | RangeNode expr "node list"

text \<open>The words of an action, separated by white space.\<close>

fun fields :: "string \<Rightarrow> string \<Rightarrow> string list" where
  "fields cur [] = (if cur = [] then [] else [cur])"
| "fields cur (c # cs) =
     (if is_space c then (if cur = [] then [] else [cur]) @ fields [] cs
      else fields (cur @ [c]) cs)"

definition parse_expr :: "string \<Rightarrow> expr option" where
  "parse_expr s =
     (case s of
        [] \<Rightarrow> None
      | c # cs \<Rightarrow>
          if c = CHR ''.'' then
            (if cs = [] then Some DotNode
             else if CHR ''.'' \<in> set cs \<or> CHR ''$'' \<in> set cs then None
             else Some (FieldNode cs))
          else if c = CHR ''$'' then
            (let v = takeWhile (\<lambda>x. x \<noteq> CHR ''.'') cs;
                 f = dropWhile (\<lambda>x. x \<noteq> CHR ''.'') cs
             in if f = [] then Some (VariableNode v)
                else if CHR ''.'' \<in> set (tl f) \<or> tl f = [] then None
                else Some (VariableFieldNode v (tl f)))
          else None)"

text \<open>
  \<open>parse_items items stack cur\<close>: \<open>cur\<close> is the list of nodes of the body being read and
  \<open>stack\<close> the enclosing \<open>range\<close> actions, each with the nodes read before it.
\<close>

fun parse_items ::
  "item list \<Rightarrow> (expr \<times> node list) list \<Rightarrow> node list \<Rightarrow> string + node list" where
  "parse_items [] [] cur = Inr cur"
| "parse_items [] (f # fs) cur = Inl ''unexpected EOF''"
| "parse_items (ItemText t # rest) st cur = parse_items rest st (cur @ [TextNode t])"
| "parse_items (ItemAction a # rest) st cur =
     (case fields [] a of
        [w] \<Rightarrow>
          if w = ''end'' then
            (case st of
               [] \<Rightarrow> Inl ''unexpected {{end}}''
             | (e, outer) # st' \<Rightarrow> parse_items rest st' (outer @ [RangeNode e cur]))
          else
            (case parse_expr w of
               None \<Rightarrow> Inl ''unsupported action''
             | Some e \<Rightarrow> parse_items rest st (cur @ [ActionNode e]))
      | [w, x] \<Rightarrow>
          if w = ''range'' then
            (case parse_expr x of
               None \<Rightarrow> Inl ''unsupported action''
             | Some e \<Rightarrow> parse_items rest ((e, cur) # st) [])
          else Inl ''unsupported action''
      | [w, x, y] \<Rightarrow>
          if x = '':='' \<and> w \<noteq> [] \<and> hd w = CHR ''$'' then
            (case parse_expr y of
               None \<Rightarrow> Inl ''unsupported action''
             | Some e \<Rightarrow> parse_items rest st (cur @ [VarDeclNode (tl w) e]))
          else Inl ''unsupported action''
      | _ \<Rightarrow> Inl ''unsupported action'')"

definition template_Parse :: "string \<Rightarrow> string + node list" where
  "template_Parse s =
     (case lex s of None \<Rightarrow> Inl ''unclosed action'' | Some items \<Rightarrow> parse_items items [] [])"

text \<open>The data a template is executed on: strings, slices and structs with named fields.\<close>

datatype tval = TString string | TList "tval list" | TStruct "(string \<times> tval) list" | TOther

fun field_of :: "tval \<Rightarrow> string \<Rightarrow> string + tval" where
  "field_of (TStruct fs) name =
     (case map_of fs name of
        None \<Rightarrow> Inl (''can't evaluate field '' @ name)
      | Some v \<Rightarrow> Inr v)"
| "field_of _ name = Inl (''can't evaluate field '' @ name)"

fun eval_expr :: "expr \<Rightarrow> tval \<Rightarrow> (string \<times> tval) list \<Rightarrow> string + tval" where
  "eval_expr DotNode dot vars = Inr dot"
| "eval_expr (FieldNode f) dot vars = field_of dot f"
| "eval_expr (VariableNode v) dot vars =
     (case map_of vars v of None \<Rightarrow> Inl (''undefined variable $'' @ v) | Some x \<Rightarrow> Inr x)"
| "eval_expr (VariableFieldNode v f) dot vars =
     (case map_of vars v of
        None \<Rightarrow> Inl (''undefined variable $'' @ v)
      | Some x \<Rightarrow> field_of x f)"

text \<open>
  \<open>template.Execute\<close>: the output, or the error message. \<open>range\<close> runs its body once for
  each element, with dot set to the element, and emits nothing for an empty slice.
\<close>

fun exec_nodes :: "node list \<Rightarrow> tval \<Rightarrow> (string \<times> tval) list \<Rightarrow> string + string"
  and exec_range :: "node list \<Rightarrow> tval list \<Rightarrow> (string \<times> tval) list \<Rightarrow> string + string" where
  "exec_nodes [] dot vars = Inr []"
| "exec_nodes (TextNode t # ns) dot vars =
     (case exec_nodes ns dot vars of Inl e \<Rightarrow> Inl e | Inr out \<Rightarrow> Inr (t @ out))"
| "exec_nodes (ActionNode e # ns) dot vars =
     (case eval_expr e dot vars of
        Inl err \<Rightarrow> Inl err
      | Inr (TString s) \<Rightarrow>
          (case exec_nodes ns dot vars of Inl e \<Rightarrow> Inl e | Inr out \<Rightarrow> Inr (s @ out))
      | Inr _ \<Rightarrow> Inl ''unsupported value'')"
| "exec_nodes (VarDeclNode v e # ns) dot vars =
     (case eval_expr e dot vars of
        Inl err \<Rightarrow> Inl err
      | Inr x \<Rightarrow> exec_nodes ns dot ((v, x) # vars))"
| "exec_nodes (RangeNode e body # ns) dot vars =
     (case eval_expr e dot vars of
        Inl err \<Rightarrow> Inl err
      | Inr (TList xs) \<Rightarrow>
          (case exec_range body xs vars of
             Inl err \<Rightarrow> Inl err
           | Inr out1 \<Rightarrow>
               (case exec_nodes ns dot vars of Inl e \<Rightarrow> Inl e | Inr out \<Rightarrow> Inr (out1 @ out)))
      | Inr _ \<Rightarrow> Inl ''range can't iterate'')"
| "exec_range body [] vars = Inr []"
| "exec_range body (x # xs) vars =
     (case exec_nodes body x vars of
        Inl err \<Rightarrow> Inl err
      | Inr out1 \<Rightarrow>
          (case exec_range body xs vars of Inl err \<Rightarrow> Inl err | Inr out \<Rightarrow> Inr (out1 @ out)))"

definition template_Execute :: "node list \<Rightarrow> tval \<Rightarrow> string + string" where
  "template_Execute t data = exec_nodes t data []"

text \<open>The two templates of the source, as written there.\<close>

definition installer_text1 :: string where
  \<open>installer_text1 =
    ''#!/usr/bin/env bash\<newline>'' @
    ''if [ -z "$(which ansible-playbook)" ]; then\<newline>'' @
    ''  \<newline>'' @
    ''  # only check the cloud boot finished if the directory exists\<newline>'' @
    ''  if [ -d /var/lib/cloud/instance ]; then\<newline>'' @
    ''    until [[ -f /var/lib/cloud/instance/boot-finished ]]; do\<newline>'' @
    ''      sleep 1\<newline>'' @
    ''    done\<newline>'' @
    ''  fi\<newline>'' @
    ''\<newline>'' @
    ''  # install dependencies\<newline>'' @
    ''  if [[ -f /etc/redhat-release ]]; then\<newline>'' @
    ''    yum update -y '' @ [CHR 0x5C] @ ''\<newline>'' @
    ''    && yum groupinstall -y "Development Tools" '' @ [CHR 0x5C] @ ''\<newline>'' @
    ''    && yum install -y python-devel\<newline>'' @
    ''  else\<newline>'' @
    ''    apt-get update '' @ [CHR 0x5C] @ ''\<newline>'' @
    ''    && apt-get install -y build-essential python-dev\<newline>'' @
    ''  fi\<newline>'' @
    ''\<newline>'' @
    ''  # install pip, if necessary\<newline>'' @
    ''  if [ -z "$(which pip)" ]; then\<newline>'' @
    ''    curl https://bootstrap.pypa.io/get-pip.py | sudo python\<newline>'' @
    ''  fi\<newline>'' @
    ''\<newline>'' @
    ''  # install ansible\<newline>'' @
    ''  pip install ''\<close>

definition installer_text2 :: string where
  \<open>installer_text2 =
    ''\<newline>'' @
    ''\<newline>'' @
    ''else\<newline>'' @
    ''\<newline>'' @
    ''  expected_version="''\<close>

definition installer_text3 :: string where
  \<open>installer_text3 =
    ''"\<newline>'' @
    ''  installed_version=$(ansible-playbook --version | head -n1 | awk '{print $2}')\<newline>'' @
    ''  installed_version="ansible==$installed_version"\<newline>'' @
    ''  if [[ "$expected_version" = *"=="* ]]; then\<newline>'' @
    ''    if [ "$expected_version" != "$installed_version" ]; then\<newline>'' @
    ''      pip install $expected_version\<newline>'' @
    ''    fi\<newline>'' @
    ''  fi\<newline>'' @
    ''  \<newline>'' @
    ''fi\<newline>''\<close>

definition installerProgramTemplate :: string where
  "installerProgramTemplate =
     installer_text1 @ ''{{ .AnsibleVersion}}'' @ installer_text2 @ ''{{ .AnsibleVersion}}'' @
     installer_text3"

definition inventoryTemplate :: string where
  "inventoryTemplate =
    ''{{$top := . -}}\<newline>'' @
    ''{{range .Hosts -}}\<newline>'' @
    ''{{.}} ansible_connection=local\<newline>'' @
    ''{{end}}\<newline>'' @
    ''\<newline>'' @
    ''{{range .Groups -}}\<newline>'' @
    ''[{{.}}]\<newline>'' @
    ''{{range $top.Hosts -}}\<newline>'' @
    ''{{.}} ansible_connection=local\<newline>'' @
    ''{{end}}\<newline>'' @
    ''\<newline>'' @
    ''{{end}}''"

text \<open>
  The trees that \<open>template.Parse\<close> builds from them (\<open>installer_parsed\<close> and
  \<open>hosts_parsed\<close> below), so that \<open>template.Must\<close> does not panic.
\<close>

definition installer_template :: "node list" where
  "installer_template =
     [TextNode installer_text1, ActionNode (FieldNode ''AnsibleVersion''),
      TextNode installer_text2, ActionNode (FieldNode ''AnsibleVersion''),
      TextNode installer_text3]"

definition host_line_nodes :: "node list" where
  "host_line_nodes = [ActionNode DotNode, TextNode '' ansible_connection=local\<newline>'']"

definition hosts_template :: "node list" where
  "hosts_template =
     [VarDeclNode ''top'' DotNode,
      RangeNode (FieldNode ''Hosts'') host_line_nodes,
      TextNode ''\<newline>\<newline>'',
      RangeNode (FieldNode ''Groups'')
        [TextNode ''['', ActionNode DotNode, TextNode '']\<newline>'',
         RangeNode (VariableFieldNode ''top'' ''Hosts'') host_line_nodes,
         TextNode ''\<newline>\<newline>'']]"

subsection \<open>The collaborators and the log of what the provisioner does with them\<close>

text \<open>
  The top-level calls of \<open>applyFn\<close> and \<open>deployAnsibleModule\<close>. They are recorded in the
  log as they start and as they return, so that the order of the workflow can be stated.
\<close>

datatype step =
    Step_installAnsible
  | Step_resolvePath
  | Step_UploadDir
  | Step_uploadVaultPasswordFile
  | Step_commandBuilder
  | Step_uploadInventory
  | Step_runCommand
  | Step_cleanupAfterBootstrap

text \<open>
  Every call to a collaborator is an event of the log, in the order of the calls:
  \<open>o.Output\<close>, \<open>log.Printf\<close>, the methods of the communicator, \<open>os.Stat\<close> and
  \<open>os.Open\<close>. \<open>Connect\<close> carries what the call returned, \<open>Wait\<close> the exit status that
  \<open>cmd.Wait\<close> left in \<open>cmd.ExitStatus\<close>. \<open>Enter\<close> and \<open>Leave\<close> mark the start and the
  return (with the error returned) of a step.
\<close>

datatype event =
    Output string
  | OutputError error
    \<comment> \<open>\<open>o.Output(fmt.Sprintf("%+v", err))\<close>\<close>
  | Log error
    \<comment> \<open>\<open>log.Printf("Retryable error: %v", err)\<close>\<close>
  | Connect "error option"
  | Disconnect
  | UploadDir string string
  | UploadScript string string
  | Upload string string
  | Start string
  | Wait int
  | Stat string
  | Open string
  | Enter step
  | Leave step "error option"

type_synonym world = "event list"

text \<open>
  What a started command does: its exit status, and the lines that the two relays
  (\<open>copyOutput\<close> on standard output and on standard error) hand to \<open>o.Output\<close>, in the
  order in which they do.
\<close>

record cmd_result =
  ExitStatus :: int
  relayed :: "string list"

text \<open>
  The collaborators. Each answer may depend on everything that happened before (the
  log so far). \<open>comm_Connect\<close> also tells how long the call took, in nanoseconds, and
  \<open>select_finish\<close> is the choice of \<open>select\<close> in \<open>retryFunc\<close> when both of its channels are
  ready.
\<close>

record env =
  json_Marshal :: marshal
  homedir_Expand :: "string \<Rightarrow> error + string"
  os_Stat :: "world \<Rightarrow> string \<Rightarrow> error option"
  os_Open :: "world \<Rightarrow> string \<Rightarrow> error + string"
  communicator_New :: "error option"
  comm_Timeout :: int
  comm_Connect :: "world \<Rightarrow> error option \<times> int"
  comm_UploadDir :: "world \<Rightarrow> string \<Rightarrow> string \<Rightarrow> error option"
  comm_UploadScript :: "world \<Rightarrow> string \<Rightarrow> string \<Rightarrow> error option"
  comm_Upload :: "world \<Rightarrow> string \<Rightarrow> string \<Rightarrow> error option"
  comm_Start :: "world \<Rightarrow> string \<Rightarrow> error + cmd_result"
  select_finish :: "world \<Rightarrow> bool"

definition traced :: "step \<Rightarrow> (world \<Rightarrow> error option \<times> world) \<Rightarrow> world \<Rightarrow> error option \<times> world" where
  "traced s f w = (case f (w @ [Enter s]) of (r, w') \<Rightarrow> (r, w' @ [Leave s r]))"

definition error_of :: "error + 'a \<Rightarrow> error option" where
  "error_of r = (case r of Inl err \<Rightarrow> Some err | Inr _ \<Rightarrow> None)"

definition traced_val ::
  "step \<Rightarrow> (world \<Rightarrow> (error + 'a) \<times> world) \<Rightarrow> world \<Rightarrow> (error + 'a) \<times> world" where
  "traced_val s f w = (case f (w @ [Enter s]) of (r, w') \<Rightarrow> (r, w' @ [Leave s (error_of r)]))"

subsection \<open>runCommand\<close>

text \<open>
  \<open>comm.Start\<close> either fails, and \<open>runCommand\<close> returns at once, or the command runs:
  \<open>cmd.Wait\<close> returns, the pipes are closed and the two relays are awaited, so that all
  relayed lines are in the log when \<open>runCommand\<close> returns.
\<close>

definition runCommand :: "provisioner \<Rightarrow> env \<Rightarrow> string \<Rightarrow> world \<Rightarrow> error option \<times> world" where
  "runCommand p env command0 w =
     (let command = (if useSudo p then ''sudo '' @ command0 else command0)
      in case comm_Start env w command of
           Inl err \<Rightarrow> (Some (ErrorExecutingCommand command err), w @ [Start command])
         | Inr cmd \<Rightarrow>
             (let err = (if ExitStatus cmd \<noteq> 0
                         then Some (NonZeroExit command (ExitStatus cmd)) else None)
              in (err, w @ [Start command] @ map Output (relayed cmd) @ [Wait (ExitStatus cmd)])))"

subsection \<open>retryFunc\<close>

definition three_seconds :: int where
  "three_seconds = 3000000000"

text \<open>
  \<open>elapsed\<close> is the time since \<open>finish := time.After(timeout)\<close>. A call of \<open>f\<close> returns its
  result and the time it took. After a failure the \<open>select\<close> returns the error when
  \<open>finish\<close> has fired or fires before the three seconds are over; when both fire at the
  same instant either case may be chosen; otherwise the loop goes round after three
  seconds.
\<close>

function retry_loop ::
  "env \<Rightarrow> int \<Rightarrow> (world \<Rightarrow> (error option \<times> int) \<times> world) \<Rightarrow> int \<Rightarrow> world \<Rightarrow> error option \<times> world" where
  "retry_loop env timeout f elapsed w =
     (case f w of
        ((None, d), w1) \<Rightarrow> (None, w1)
      | ((Some err, d), w1) \<Rightarrow>
          (let w2 = w1 @ [Log err];
               now = elapsed + max 0 d
           in if timeout < now + three_seconds \<or>
                 (timeout = now + three_seconds \<and> select_finish env w2)
              then (Some err, w2)
              else retry_loop env timeout f (now + three_seconds) w2))"
  by pat_completeness auto
termination
  by (relation "measure (\<lambda>(env, timeout, f, elapsed, w). nat (timeout - elapsed))")
     (auto simp add: three_seconds_def)

declare retry_loop.simps [simp del]

definition retryFunc ::
  "env \<Rightarrow> int \<Rightarrow> (world \<Rightarrow> (error option \<times> int) \<times> world) \<Rightarrow> world \<Rightarrow> error option \<times> world" where
  "retryFunc env timeout f w = retry_loop env timeout f 0 w"

subsection \<open>The steps of the deployment\<close>

text \<open>\<open>homedir.Expand\<close> returns the empty string with its error, which the source drops.\<close>

definition resolvePath :: "env \<Rightarrow> string \<Rightarrow> world \<Rightarrow> (error + string) \<times> world" where
  "resolvePath env path w =
     (let expandedPath = (case homedir_Expand env path of Inl _ \<Rightarrow> [] | Inr x \<Rightarrow> x)
      in case os_Stat env w expandedPath of
           None \<Rightarrow> (Inr expandedPath, w @ [Stat expandedPath])
         | Some _ \<Rightarrow> (Inl (ModuleNotFound path), w @ [Stat expandedPath]))"

text \<open>
  The loop \<open>for _, command := range commands { p.runCommand(o, comm, command) }\<close> of
  \<open>uploadVaultPasswordFile\<close> and \<open>uploadInventory\<close>: what \<open>runCommand\<close> returns is dropped.
\<close>

definition run_commands :: "provisioner \<Rightarrow> env \<Rightarrow> string list \<Rightarrow> world \<Rightarrow> world" where
  "run_commands p env commands w = fold (\<lambda>command w. snd (runCommand p env command w)) commands w"

definition installAnsible :: "provisioner \<Rightarrow> env \<Rightarrow> world \<Rightarrow> error option \<times> world" where
  "installAnsible p env w =
     (let AnsibleVersion = ''ansible'';
          AnsibleVersion = (if length (installVersion p) > 0
                            then AnsibleVersion @ ''=='' @ installVersion p
                            else AnsibleVersion);
          w = w @ [Output (''Installing '' @ [CHR 0x27] @ AnsibleVersion @ [CHR 0x27] @ ''...'')]
      in case template_Execute installer_template (TStruct [(''AnsibleVersion'', TString AnsibleVersion)]) of
           Inl msg \<Rightarrow> (Some (TemplateError ''installer'' msg), w)
         | Inr buf \<Rightarrow>
             (let targetPath = ''/tmp/ansible-install.sh'';
                  w = w @ [Output (''Uploading ansible installer program to '' @ targetPath @ ''...'')]
              in case comm_UploadScript env w targetPath buf of
                   Some err \<Rightarrow> (Some err, w @ [UploadScript targetPath buf])
                 | None \<Rightarrow>
                     (case runCommand p env
                             (''/bin/bash -c '' @ [CHR 0x27] @ targetPath @ '' && rm '' @ targetPath
                              @ [CHR 0x27])
                             (w @ [UploadScript targetPath buf]) of
                        (Some err, w) \<Rightarrow> (Some err, w)
                      | (None, w) \<Rightarrow> (None, w @ [Output ''Ansible installed.'']))))"

definition uploadVaultPasswordFile ::
  "provisioner \<Rightarrow> env \<Rightarrow> string \<Rightarrow> world \<Rightarrow> (error + string) \<times> world" where
  "uploadVaultPasswordFile p env passwordFilePath w =
     (let passwordFileName = filepath_Base passwordFilePath;
          targetPath = filepath_Join [bootstrapDirectory, ''.vault-ansible-bootstrap'', passwordFileName];
          commands = [''mkdir -p '' @ filepath_Dir targetPath, ''chmod 0777 '' @ filepath_Dir targetPath];
          w = run_commands p env commands w;
          w = w @ [Output (''Uploading ansible vault password file to '' @ [CHR 0x27] @ targetPath
                           @ [CHR 0x27] @ ''...'')]
      in case os_Open env w passwordFilePath of
           Inl err \<Rightarrow> (Inl err, w @ [Open passwordFilePath])
         | Inr file \<Rightarrow>
             (let w = w @ [Open passwordFilePath]
              in case comm_Upload env w targetPath file of
                   Some err \<Rightarrow> (Inl err, w @ [Upload targetPath file])
                 | None \<Rightarrow>
                     (Inr targetPath,
                      w @ [Upload targetPath file, Output ''Ansible vault password file uploaded.''])))"

text \<open>The exported fields of the provisioner, as the \<open>hosts\<close> template can see them.\<close>

definition provisioner_data :: "provisioner \<Rightarrow> tval" where
  "provisioner_data p =
     TStruct [(''Playbook'', TString (Playbook p)),
              (''Hosts'', TList (map TString (Hosts p))),
              (''Groups'', TList (map TString (Groups p))),
              (''Tags'', TList (map TString (Tags p))),
              (''SkipTags'', TList (map TString (SkipTags p))),
              (''StartAtTask'', TString (StartAtTask p)),
              (''Limit'', TString (Limit p)),
              (''Forks'', TOther),
              (''ExtraVars'', TOther),
              (''Verbose'', TOther),
              (''ForceHandlers'', TOther),
              (''Become'', TOther),
              (''BecomeMethod'', TString (BecomeMethod p)),
              (''BecomeUser'', TString (BecomeUser p)),
              (''VaultPasswordFile'', TString (VaultPasswordFile p))]"

definition uploadInventory :: "provisioner \<Rightarrow> env \<Rightarrow> world \<Rightarrow> error option \<times> world" where
  "uploadInventory p env w =
     (let w = w @ [Output ''Generating ansible inventory...'']
      in case template_Execute hosts_template (provisioner_data p) of
           Inl msg \<Rightarrow> (Some (TemplateError ''hosts'' msg), w)
         | Inr buf \<Rightarrow>
             (let targetPath = inventoryFilePath;
                  commands = [''mkdir -p '' @ filepath_Dir targetPath,
                              ''chmod 0777 '' @ filepath_Dir targetPath];
                  w = run_commands p env commands w;
                  w = w @ [Output (''Uploading ansible inventory to '' @ targetPath @ ''...'')]
              in case comm_Upload env w targetPath buf of
                   Some err \<Rightarrow> (Some err, w @ [Upload targetPath buf])
                 | None \<Rightarrow> (None, w @ [Upload targetPath buf, Output ''Ansible inventory uploaded.''])))"

definition cleanupAfterBootstrap :: "provisioner \<Rightarrow> env \<Rightarrow> world \<Rightarrow> error option \<times> world" where
  "cleanupAfterBootstrap p env w =
     (let w = w @ [Output ''Cleaning up after bootstrap...''];
          w = snd (runCommand p env (''rm -rf '' @ filepath_Dir bootstrapDirectory) w)
      in (None, w @ [Output ''Cleanup complete.'']))"

subsection \<open>deployAnsibleModule\<close>

definition deployAnsibleModule :: "provisioner \<Rightarrow> env \<Rightarrow> world \<Rightarrow> error option \<times> world" where
  "deployAnsibleModule p env w =
     (case traced_val Step_resolvePath (resolvePath env (Playbook p)) w of
        (Inl err, w) \<Rightarrow> (Some err, w)
      | (Inr playbookPath, w) \<Rightarrow>
     (let playbookDir = filepath_Dir playbookPath;
          remotePlaybookPath = filepath_Join [bootstrapDirectory, filepath_Base playbookPath]
      in case traced Step_UploadDir
                (\<lambda>w. (comm_UploadDir env w bootstrapDirectory playbookDir,
                      w @ [UploadDir bootstrapDirectory playbookDir])) w of
        (Some err, w) \<Rightarrow> (Some err, w)
      | (None, w) \<Rightarrow>
     (case (if length (VaultPasswordFile p) > 0 then
              (case traced_val Step_resolvePath (resolvePath env (VaultPasswordFile p)) w of
                 (Inl err, w) \<Rightarrow> (Inl err, w)
               | (Inr vaultPasswordFilePath, w) \<Rightarrow>
                   traced_val Step_uploadVaultPasswordFile
                     (uploadVaultPasswordFile p env vaultPasswordFilePath) w)
            else (Inr [], w)) of
        (Inl err, w) \<Rightarrow> (Some err, w)
      | (Inr uploadedVaultPasswordFilePath, w) \<Rightarrow>
     (case traced_val Step_commandBuilder
             (\<lambda>w. (commandBuilder (json_Marshal env) p remotePlaybookPath
                      uploadedVaultPasswordFilePath, w)) w of
        (Inl err, w) \<Rightarrow> (Some err, w)
      | (Inr command, w) \<Rightarrow>
     (case traced Step_uploadInventory (uploadInventory p env) w of
        (Some err, w) \<Rightarrow> (Some err, w)
      | (None, w) \<Rightarrow>
     (case traced Step_runCommand (runCommand p env command)
             (w @ [Output (''running command: '' @ command)]) of
        (Some err, w) \<Rightarrow> (Some err, w)
      | (None, w) \<Rightarrow>
          (None, if \<not> skipCleanup p
                 then snd (traced Step_cleanupAfterBootstrap (cleanupAfterBootstrap p env) w)
                 else w)))))))"

subsection \<open>decodeConfig\<close>

definition bindp :: "panic + 'a \<Rightarrow> ('a \<Rightarrow> panic + 'b) \<Rightarrow> panic + 'b" where
  "bindp m f = (case m of Inl pn \<Rightarrow> Inl pn | Inr x \<Rightarrow> f x)"

text \<open>The type assertions \<open>v.(string)\<close>, \<open>v.(int)\<close> and \<open>v.(bool)\<close>.\<close>

definition assert_string :: "gval \<Rightarrow> panic + string" where
  "assert_string v = (case v of GString s \<Rightarrow> Inr s | _ \<Rightarrow> Inl (InterfaceConversion ''string''))"

definition assert_int :: "gval \<Rightarrow> panic + int" where
  "assert_int v = (case v of GInt i \<Rightarrow> Inr i | _ \<Rightarrow> Inl (InterfaceConversion ''int''))"

definition assert_bool :: "gval \<Rightarrow> panic + bool" where
  "assert_bool v = (case v of GBool b \<Rightarrow> Inr b | _ \<Rightarrow> Inl (InterfaceConversion ''bool''))"

fun strings_of :: "gval list \<Rightarrow> string list" where
  "strings_of [] = []"
| "strings_of (GString s # vs) = s # strings_of vs"
| "strings_of (_ # vs) = strings_of vs"

definition getStringList :: "gval \<Rightarrow> panic + string list" where
  "getStringList v =
     (case v of
        GNil \<Rightarrow> Inr []
      | GList vs \<Rightarrow> Inr (strings_of vs)
      | _ \<Rightarrow> Inl (UnsupportedType v))"

definition getStringMap :: "gval \<Rightarrow> panic + (string \<times> gval) list" where
  "getStringMap v =
     (case v of
        GNil \<Rightarrow> Inr []
      | GMap m \<Rightarrow> Inr m
      | _ \<Rightarrow> Inl (UnsupportedType v))"

text \<open>\<open>d\<close> is \<open>d.Get\<close>. The fields of the literal are evaluated in the order written.\<close>

definition decodeConfig :: "(string \<Rightarrow> gval) \<Rightarrow> panic + provisioner" where
  "decodeConfig d =
     bindp (assert_string (d ''playbook'')) (\<lambda>playbook.
     bindp (getStringList (d ''hosts'')) (\<lambda>hosts.
     bindp (getStringList (d ''groups'')) (\<lambda>groups.
     bindp (getStringList (d ''tags'')) (\<lambda>tags.
     bindp (getStringList (d ''skip_tags'')) (\<lambda>skip_tags.
     bindp (assert_string (d ''start_at_task'')) (\<lambda>start_at_task.
     bindp (assert_string (d ''limit'')) (\<lambda>limit.
     bindp (assert_int (d ''forks'')) (\<lambda>forks.
     bindp (getStringMap (d ''extra_vars'')) (\<lambda>extra_vars.
     bindp (assert_bool (d ''verbose'')) (\<lambda>verbose.
     bindp (assert_bool (d ''force_handlers'')) (\<lambda>force_handlers.
     bindp (assert_bool (d ''become'')) (\<lambda>become.
     bindp (assert_string (d ''become_method'')) (\<lambda>become_method.
     bindp (assert_string (d ''become_user'')) (\<lambda>become_user.
     bindp (assert_string (d ''vault_password_file'')) (\<lambda>vault_password_file.
     bindp (assert_bool (d ''use_sudo'')) (\<lambda>use_sudo.
     bindp (assert_bool (d ''skip_install'')) (\<lambda>skip_install.
     bindp (assert_bool (d ''skip_cleanup'')) (\<lambda>skip_cleanup.
     bindp (assert_string (d ''install_version'')) (\<lambda>install_version.
       (let p = \<lparr> Playbook = playbook, Hosts = hosts, Groups = groups, Tags = tags,
                    SkipTags = skip_tags, StartAtTask = start_at_task, Limit = limit,
                    Forks = forks, ExtraVars = extra_vars, Verbose = verbose,
                    ForceHandlers = force_handlers, Become = become,
                    BecomeMethod = become_method, BecomeUser = become_user,
                    VaultPasswordFile = vault_password_file, useSudo = use_sudo,
                    skipInstall = skip_install, skipCleanup = skip_cleanup,
                    installVersion = install_version \<rparr>;
            p = p \<lparr> Hosts := Hosts p @ [''localhost''] \<rparr>
        in Inr p))))))))))))))))))))"

text \<open>
  What the \<open>Schema\<close> of \<open>Provisioner\<close> makes \<open>d.Get\<close> return: a string for \<open>TypeString\<close>, a
  slice for \<open>TypeList\<close>, a map for \<open>TypeMap\<close>, an int for \<open>TypeInt\<close> and a bool for
  \<open>TypeBool\<close>.
\<close>

definition is_GString :: "gval \<Rightarrow> bool" where
  "is_GString v = (case v of GString _ \<Rightarrow> True | _ \<Rightarrow> False)"

definition is_GList :: "gval \<Rightarrow> bool" where
  "is_GList v = (case v of GList _ \<Rightarrow> True | _ \<Rightarrow> False)"

definition is_GMap :: "gval \<Rightarrow> bool" where
  "is_GMap v = (case v of GMap _ \<Rightarrow> True | _ \<Rightarrow> False)"

definition is_GInt :: "gval \<Rightarrow> bool" where
  "is_GInt v = (case v of GInt _ \<Rightarrow> True | _ \<Rightarrow> False)"

definition is_GBool :: "gval \<Rightarrow> bool" where
  "is_GBool v = (case v of GBool _ \<Rightarrow> True | _ \<Rightarrow> False)"

definition schema_typed :: "(string \<Rightarrow> gval) \<Rightarrow> bool" where
  "schema_typed d =
     (list_all (\<lambda>k. is_GString (d k))
        [''playbook'', ''start_at_task'', ''limit'', ''become_method'', ''become_user'',
         ''vault_password_file'', ''install_version''] \<and>
      list_all (\<lambda>k. is_GList (d k)) [''hosts'', ''groups'', ''tags'', ''skip_tags''] \<and>
      is_GMap (d ''extra_vars'') \<and>
      is_GInt (d ''forks'') \<and>
      list_all (\<lambda>k. is_GBool (d k))
        [''verbose'', ''force_handlers'', ''become'', ''use_sudo'', ''skip_install'',
         ''skip_cleanup''])"

text \<open>The hosts that the configuration names: the strings of its \<open>hosts\<close> list.\<close>

definition configured_hosts :: "(string \<Rightarrow> gval) \<Rightarrow> string list" where
  "configured_hosts d = (case d ''hosts'' of GList vs \<Rightarrow> strings_of vs | _ \<Rightarrow> [])"

subsection \<open>applyFn\<close>

text \<open>
  The log starts empty. \<open>defer comm.Disconnect()\<close> is registered once \<open>retryFunc\<close> has
  returned \<open>nil\<close>, and runs when \<open>applyFn\<close> returns.
\<close>

definition connect :: "env \<Rightarrow> world \<Rightarrow> (error option \<times> int) \<times> world" where
  "connect env w = (case comm_Connect env w of (r, d) \<Rightarrow> ((r, d), w @ [Connect r]))"

definition applyFn :: "(string \<Rightarrow> gval) \<Rightarrow> env \<Rightarrow> (panic + error option) \<times> world" where
  "applyFn d env =
     (case decodeConfig d of
        Inl pn \<Rightarrow> (Inl pn, [])
      | Inr p \<Rightarrow>
     (case communicator_New env of
        Some err \<Rightarrow> (Inr (Some err), [])
      | None \<Rightarrow>
     (case retryFunc env (comm_Timeout env) (connect env) [] of
        (Some err, w) \<Rightarrow> (Inr (Some err), w)
      | (None, w) \<Rightarrow>
          (case (case (if \<not> skipInstall p
                       then traced Step_installAnsible (installAnsible p env) w
                       else (None, w)) of
                   (Some err, w) \<Rightarrow> (Some err, w)
                 | (None, w) \<Rightarrow>
                     (case deployAnsibleModule p env w of
                        (Some err, w) \<Rightarrow> (Some err, w @ [OutputError err])
                      | (None, w) \<Rightarrow> (None, w))) of
             (r, w) \<Rightarrow> (Inr r, w @ [Disconnect])))))"

subsection \<open>A concrete configuration and concrete collaborators\<close>

text \<open>
  One host and one group, installation skipped, cleanup not skipped. Every collaborator
  succeeds, except that the cleanup command exits with status 1.
\<close>

definition config0 :: "string \<Rightarrow> gval" where
  "config0 k =
     (case map_of
        [(''playbook'', GString ''/home/op/ansible/playbook.yaml''),
         (''hosts'', GList [GString ''web1'']),
         (''groups'', GList [GString ''app'']),
         (''tags'', GList []),
         (''skip_tags'', GList []),
         (''start_at_task'', GString []),
         (''limit'', GString []),
         (''extra_vars'', GMap []),
         (''forks'', GInt 0),
         (''verbose'', GBool False),
         (''force_handlers'', GBool False),
         (''become'', GBool False),
         (''become_method'', GString ''sudo''),
         (''become_user'', GString ''user''),
         (''vault_password_file'', GString []),
         (''use_sudo'', GBool True),
         (''skip_install'', GBool True),
         (''skip_cleanup'', GBool False),
         (''install_version'', GString [])] k of
        Some v \<Rightarrow> v
      | None \<Rightarrow> GNil)"

definition env0 :: env where
  "env0 = \<lparr> json_Marshal = (\<lambda>m. Inl (External ''json: unsupported type'')),
            homedir_Expand = Inr,
            os_Stat = (\<lambda>w path. None),
            os_Open = (\<lambda>w path. Inr ''secret''),
            communicator_New = None,
            comm_Timeout = 300000000000,
            comm_Connect = (\<lambda>w. (None, 1000000000)),
            comm_UploadDir = (\<lambda>w dst src. None),
            comm_UploadScript = (\<lambda>w path content. None),
            comm_Upload = (\<lambda>w path content. None),
            comm_Start = (\<lambda>w command.
               if command = ''sudo rm -rf /tmp''
               then Inr \<lparr> ExitStatus = 1, relayed = [''rm: cannot remove''] \<rparr>
               else Inr \<lparr> ExitStatus = 0, relayed = [] \<rparr>),
            select_finish = (\<lambda>w. True) \<rparr>"

text \<open>A provisioner with every option of the command line set.\<close>

definition provisioner_all :: provisioner where
  "provisioner_all =
     \<lparr> Playbook = ''~/ansible/playbook.yaml'', Hosts = [''web1'', ''localhost''],
       Groups = [''app''], Tags = [''a'', ''b''], SkipTags = [''c''], StartAtTask = ''t1'',
       Limit = ''web*'', Forks = 5, ExtraVars = [(''k'', GString ''v'')], Verbose = True,
       ForceHandlers = True, Become = True, BecomeMethod = ''sudo'', BecomeUser = ''user'',
       VaultPasswordFile = [], useSudo = True, skipInstall = True, skipCleanup = False,
       installVersion = [] \<rparr>"

definition marshal_kv :: marshal where
  \<open>marshal_kv m = Inr ''{"k":"v"}''\<close>

text \<open>A communicator on which no command can be started.\<close>

definition env_refused :: env where
  "env_refused = env0 \<lparr> comm_Start := (\<lambda>w command. Inl (External ''ssh: session closed'')) \<rparr>"


text \<open>
  A communicator that never connects: every attempt takes one second and fails with an
  error that tells the attempts apart. The timeout is seven seconds.
\<close>

definition env_unreachable :: env where
  "env_unreachable =
     env0 \<lparr> comm_Timeout := 7000000000,
            comm_Connect := (\<lambda>w. (Some (External (''dial tcp: attempt '' @ fmt_d (int (length w div 2)))),
                                   1000000000)) \<rparr>"

text \<open>The scenario of the inventory: one host \<open>web1\<close>, one group \<open>app\<close>.\<close>

definition web1_app :: provisioner where
  "web1_app = provisioner_all \<lparr> Hosts := [''web1''], Groups := [''app''] \<rparr>"

text \<open>A configuration that names \<open>localhost\<close> itself.\<close>

definition config_localhost :: "string \<Rightarrow> gval" where
  "config_localhost k = (if k = ''hosts'' then GList [GString ''localhost''] else config0 k)"

subsection \<open>Notions used in the statements\<close>

text \<open>
  One attempt of \<open>retryFunc\<close>: the call of \<open>f\<close>, and the line logged when it failed.
\<close>

definition attempt :: "(world \<Rightarrow> (error option \<times> int) \<times> world) \<Rightarrow> world \<Rightarrow> world" where
  "attempt f w = (case f w of ((None, d), w1) \<Rightarrow> w1 | ((Some err, d), w1) \<Rightarrow> w1 @ [Log err])"

text \<open>The inventory: a line for each host, and for each group a header and the lines again.\<close>

definition host_lines :: "string list \<Rightarrow> string" where
  "host_lines hosts = concat (map (\<lambda>h. h @ '' ansible_connection=local\<newline>'') hosts)"

definition group_section :: "string list \<Rightarrow> string \<Rightarrow> string" where
  "group_section hosts g = ''['' @ g @ '']\<newline>'' @ host_lines hosts @ ''\<newline>\<newline>''"

text \<open>A text without the delimiter \<open>{{\<close>.\<close>

fun no_delim :: "string \<Rightarrow> bool" where
  "no_delim [] = True"
| "no_delim [c] = True"
| "no_delim (c # d # cs) = (\<not> (c = CHR ''{'' \<and> d = CHR ''{'') \<and> no_delim (d # cs))"

text \<open>What the concrete configuration decodes to, and the log of its run.\<close>

definition provisioner0 :: provisioner where
  "provisioner0 =
     \<lparr> Playbook = ''/home/op/ansible/playbook.yaml'', Hosts = [''web1'', ''localhost''],
       Groups = [''app''], Tags = [], SkipTags = [], StartAtTask = [], Limit = [], Forks = 0,
       ExtraVars = [], Verbose = False, ForceHandlers = False, Become = False,
       BecomeMethod = ''sudo'', BecomeUser = ''user'', VaultPasswordFile = [], useSudo = True,
       skipInstall = True, skipCleanup = False, installVersion = [] \<rparr>"

definition command0 :: string where
  "command0 = ''ansible-playbook /tmp/ansible-terraform-bootstrap/playbook.yaml'' @
              '' --inventory-file=/tmp/ansible-terraform-bootstrap/.inventory-ansible-bootstrap/hosts''"

definition inventory0 :: string where
  "inventory0 =
     ''web1 ansible_connection=local\<newline>localhost ansible_connection=local\<newline>\<newline>\<newline>'' @
     ''[app]\<newline>web1 ansible_connection=local\<newline>localhost ansible_connection=local\<newline>\<newline>\<newline>''"

definition trace0 :: world where
  "trace0 =
     [Connect None,
      Enter Step_resolvePath, Stat ''/home/op/ansible/playbook.yaml'', Leave Step_resolvePath None,
      Enter Step_UploadDir, UploadDir ''/tmp/ansible-terraform-bootstrap'' ''/home/op/ansible'',
      Leave Step_UploadDir None,
      Enter Step_commandBuilder, Leave Step_commandBuilder None,
      Enter Step_uploadInventory, Output ''Generating ansible inventory...'',
      Start ''sudo mkdir -p /tmp/ansible-terraform-bootstrap/.inventory-ansible-bootstrap'', Wait 0,
      Start ''sudo chmod 0777 /tmp/ansible-terraform-bootstrap/.inventory-ansible-bootstrap'', Wait 0,
      Output (''Uploading ansible inventory to '' @
              ''/tmp/ansible-terraform-bootstrap/.inventory-ansible-bootstrap/hosts...''),
      Upload ''/tmp/ansible-terraform-bootstrap/.inventory-ansible-bootstrap/hosts'' inventory0,
      Output ''Ansible inventory uploaded.'', Leave Step_uploadInventory None,
      Output (''running command: '' @ command0),
      Enter Step_runCommand, Start (''sudo '' @ command0), Wait 0, Leave Step_runCommand None,
      Enter Step_cleanupAfterBootstrap, Output ''Cleaning up after bootstrap...'',
      Start ''sudo rm -rf /tmp'', Output ''rm: cannot remove'', Wait 1,
      Output ''Cleanup complete.'', Leave Step_cleanupAfterBootstrap None,
      Disconnect]"

text \<open>The log of the run of the same configuration when no command can be started.\<close>

definition trace_refused :: world where
  "trace_refused =
     [Connect None,
      Enter Step_resolvePath, Stat ''/home/op/ansible/playbook.yaml'', Leave Step_resolvePath None,
      Enter Step_UploadDir, UploadDir ''/tmp/ansible-terraform-bootstrap'' ''/home/op/ansible'',
      Leave Step_UploadDir None,
      Enter Step_commandBuilder, Leave Step_commandBuilder None,
      Enter Step_uploadInventory, Output ''Generating ansible inventory...'',
      Start ''sudo mkdir -p /tmp/ansible-terraform-bootstrap/.inventory-ansible-bootstrap'',
      Start ''sudo chmod 0777 /tmp/ansible-terraform-bootstrap/.inventory-ansible-bootstrap'',
      Output (''Uploading ansible inventory to '' @
              ''/tmp/ansible-terraform-bootstrap/.inventory-ansible-bootstrap/hosts...''),
      Upload ''/tmp/ansible-terraform-bootstrap/.inventory-ansible-bootstrap/hosts'' inventory0,
      Output ''Ansible inventory uploaded.'', Leave Step_uploadInventory None,
      Output (''running command: '' @ command0),
      Enter Step_runCommand, Start (''sudo '' @ command0),
      Leave Step_runCommand
        (Some (ErrorExecutingCommand (''sudo '' @ command0) (External ''ssh: session closed''))),
      OutputError (ErrorExecutingCommand (''sudo '' @ command0) (External ''ssh: session closed'')),
      Disconnect]"


subsection \<open>Notions used in the statements about the workflow\<close>

text \<open>
  The events of the connection and of the steps are kept apart from the plain events
  (output, log lines, uploads, commands, file system calls). \<open>marks\<close> is the log without
  its plain events.
\<close>

fun plain :: "event \<Rightarrow> bool" where
  "plain (Enter s) = False"
| "plain (Leave s r) = False"
| "plain (Connect r) = False"
| "plain Disconnect = False"
| "plain _ = True"

fun is_mark :: "event \<Rightarrow> bool" where
  "is_mark (Enter s) = True"
| "is_mark (Leave s r) = True"
| "is_mark _ = False"

definition marks :: "world \<Rightarrow> world" where
  "marks w = filter (\<lambda>e. \<not> plain e) w"

definition extends_plain :: "world \<Rightarrow> world \<Rightarrow> bool" where
  "extends_plain w w' = (\<exists>es. w' = w @ es \<and> list_all plain es)"


text \<open>The steps that were started, in order.\<close>

fun entered :: "event \<Rightarrow> step option" where
  "entered (Enter s) = Some s"
| "entered _ = None"

definition steps :: "world \<Rightarrow> step list" where
  "steps w = List.map_filter entered w"

text \<open>\<open>before a b w\<close>: the event \<open>a\<close> is in the log \<open>w\<close> before the first \<open>b\<close>.\<close>

definition before :: "event \<Rightarrow> event \<Rightarrow> world \<Rightarrow> bool" where
  "before a b w = (a \<in> set (takeWhile (\<lambda>e. e \<noteq> b) w))"

text \<open>The marks that a successful \<open>deployAnsibleModule\<close> adds to the log.\<close>

definition deploy_success_marks :: "provisioner \<Rightarrow> world" where
  "deploy_success_marks p =
     [Enter Step_resolvePath, Leave Step_resolvePath None,
      Enter Step_UploadDir, Leave Step_UploadDir None] @
     (if VaultPasswordFile p \<noteq> []
      then [Enter Step_resolvePath, Leave Step_resolvePath None,
            Enter Step_uploadVaultPasswordFile, Leave Step_uploadVaultPasswordFile None]
      else []) @
     [Enter Step_commandBuilder, Leave Step_commandBuilder None,
      Enter Step_uploadInventory, Leave Step_uploadInventory None,
      Enter Step_runCommand, Leave Step_runCommand None] @
     (if \<not> skipCleanup p
      then [Enter Step_cleanupAfterBootstrap, Leave Step_cleanupAfterBootstrap None]
      else [])"

text \<open>
  The phases of the workflow as the specification names them, and the phase that each
  step of the source belongs to there: connecting is \<open>comm.Connect\<close>; installing is
  \<open>installAnsible\<close>; uploading the artifacts is resolving the paths, uploading the
  directory of the playbook, the vault password file and the inventory; building the
  command is \<open>commandBuilder\<close>; running is the \<open>runCommand\<close> of the built command; cleaning
  up is \<open>cleanupAfterBootstrap\<close>; and the workflow is done with \<open>comm.Disconnect\<close>. The
  phases of a log are the phases of its events, a phase that goes on counted once.
\<close>

datatype phase =
    Connecting | Installing | UploadingArtifacts | BuildingCommand | Running | CleaningUp | Done

fun phase_of_step :: "step \<Rightarrow> phase" where
  "phase_of_step Step_installAnsible = Installing"
| "phase_of_step Step_resolvePath = UploadingArtifacts"
| "phase_of_step Step_UploadDir = UploadingArtifacts"
| "phase_of_step Step_uploadVaultPasswordFile = UploadingArtifacts"
| "phase_of_step Step_uploadInventory = UploadingArtifacts"
| "phase_of_step Step_commandBuilder = BuildingCommand"
| "phase_of_step Step_runCommand = Running"
| "phase_of_step Step_cleanupAfterBootstrap = CleaningUp"

fun phase_of :: "event \<Rightarrow> phase option" where
  "phase_of (Connect r) = Some Connecting"
| "phase_of (Enter s) = Some (phase_of_step s)"
| "phase_of Disconnect = Some Done"
| "phase_of _ = None"

definition phases :: "world \<Rightarrow> phase list" where
  "phases w = remdups_adj (List.map_filter phase_of w)"

text \<open>The rendered inventory, and the remote path of the vault password file.\<close>

definition inventory_text :: "provisioner \<Rightarrow> string" where
  "inventory_text p =
     host_lines (Hosts p) @ ''\<newline>\<newline>'' @ concat (map (group_section (Hosts p)) (Groups p))"

definition vault_target :: "string \<Rightarrow> string" where
  "vault_target passwordFilePath =
     filepath_Join [bootstrapDirectory, ''.vault-ansible-bootstrap'', filepath_Base passwordFilePath]"

section \<open>Properties\<close>

subsection \<open>Constants and library functions\<close>

lemma inventoryFilePath_eq:
  "inventoryFilePath = ''/tmp/ansible-terraform-bootstrap/.inventory-ansible-bootstrap/hosts''"
  by (simp add: inventoryFilePath_def bootstrapDirectory_def filepath_Clean_def)

lemma fmt_d_5: "fmt_d 5 = ''5''"
  by (simp add: fmt_d_def decimal.simps digit_char_def)

lemma if_append: "(if c then x @ y else x) = x @ (if c then y else [])"
  by simp

subsection \<open>The command line\<close>

text \<open>
  C1. Whenever the extra variables are empty or \<open>json.Marshal\<close> encodes them (as \<open>js\<close>),
  \<open>commandBuilder\<close> returns \<open>ansible-playbook <playbookFile>\<close>, then
  \<open>--inventory-file=<inventoryFilePath>\<close>, then one segment for each of extra-vars,
  skip-tags, tags, vault-password-file, start-at-task, limit, forks, verbose,
  force-handlers and become (with become-method and become-user), in this order; the
  segment of an empty, non-positive or false field is empty. So \<open>Forks = 0\<close> adds nothing
  and \<open>Forks = 5\<close> adds \<open>--forks=5\<close>.
\<close>

theorem commandBuilder_flag_order:
  assumes "ExtraVars p = [] \<or> marshal (ExtraVars p) = Inr js"
  shows "commandBuilder marshal p playbookFile vaultFile = Inr (
      ''ansible-playbook '' @ playbookFile
    @ '' --inventory-file='' @ inventoryFilePath
    @ (if ExtraVars p \<noteq> [] then '' --extra-vars='' @ [CHR 0x27] @ js @ [CHR 0x27] else [])
    @ (if SkipTags p \<noteq> [] then '' --skip-tags='' @ strings_Join (SkipTags p) '','' else [])
    @ (if Tags p \<noteq> [] then '' --tags='' @ strings_Join (Tags p) '','' else [])
    @ (if vaultFile \<noteq> [] then '' --vault-password-file='' @ vaultFile else [])
    @ (if StartAtTask p \<noteq> [] then '' --start-at-task='' @ StartAtTask p else [])
    @ (if Limit p \<noteq> [] then '' --limit='' @ Limit p else [])
    @ (if Forks p > 0 then '' --forks='' @ fmt_d (Forks p) else [])
    @ (if Verbose p then '' --verbose'' else [])
    @ (if ForceHandlers p then '' --force-handlers'' else [])
    @ (if Become p then '' --become --become-method='' @ [CHR 0x27] @ BecomeMethod p @ [CHR 0x27]
                        @ '' --become-user='' @ [CHR 0x27] @ BecomeUser p @ [CHR 0x27]
       else []))
    \<and> fmt_d 5 = ''5''"
proof (cases "ExtraVars p = []")
  case True
  then show ?thesis
    by (simp add: commandBuilder_def Let_def fmt_d_5 if_append split del: if_split)
next
  case False
  with assms have "marshal (ExtraVars p) = Inr js" by simp
  with False show ?thesis
    by (simp add: commandBuilder_def Let_def fmt_d_5 if_append split del: if_split)
qed

theorem commandBuilder_flag_order_witness:
  \<open>commandBuilder marshal_kv provisioner_all ''/tmp/ansible-terraform-bootstrap/playbook.yaml'' ''/x/pw''
   = Inr (''ansible-playbook /tmp/ansible-terraform-bootstrap/playbook.yaml'' @
          '' --inventory-file=/tmp/ansible-terraform-bootstrap/.inventory-ansible-bootstrap/hosts'' @
          '' --extra-vars='{"k":"v"}' --skip-tags=c --tags=a,b'' @
          '' --vault-password-file=/x/pw --start-at-task=t1 --limit=web* --forks=5'' @
          '' --verbose --force-handlers --become --become-method='sudo' --become-user='user'' @
          [CHR 0x27])
   \<and> commandBuilder marshal_kv (provisioner_all \<lparr> Forks := 0 \<rparr>)
         ''/tmp/ansible-terraform-bootstrap/playbook.yaml'' []
   = Inr (''ansible-playbook /tmp/ansible-terraform-bootstrap/playbook.yaml'' @
          '' --inventory-file=/tmp/ansible-terraform-bootstrap/.inventory-ansible-bootstrap/hosts'' @
          '' --extra-vars='{"k":"v"}' --skip-tags=c --tags=a,b'' @
          '' --start-at-task=t1 --limit=web*'' @
          '' --verbose --force-handlers --become --become-method='sudo' --become-user='user'' @
          [CHR 0x27])\<close>
proof -
  have h: \<open>ExtraVars provisioner_all = [] \<or>
           marshal_kv (ExtraVars provisioner_all) = Inr ''{"k":"v"}''\<close>
    by (simp add: marshal_kv_def)
  have h0: \<open>ExtraVars (provisioner_all \<lparr> Forks := 0 \<rparr>) = [] \<or>
            marshal_kv (ExtraVars (provisioner_all \<lparr> Forks := 0 \<rparr>)) = Inr ''{"k":"v"}''\<close>
    by (simp add: marshal_kv_def)
  note w1 = commandBuilder_flag_order [where p = provisioner_all and marshal = marshal_kv
      and playbookFile = "''/tmp/ansible-terraform-bootstrap/playbook.yaml''"
      and vaultFile = "''/x/pw''", OF h]
  note w2 = commandBuilder_flag_order [where p = "provisioner_all \<lparr> Forks := 0 \<rparr>"
      and marshal = marshal_kv
      and playbookFile = "''/tmp/ansible-terraform-bootstrap/playbook.yaml''"
      and vaultFile = "[]", OF h0]
  from w1 w2
  show ?thesis
    by (simp add: provisioner_all_def inventoryFilePath_eq)
qed

subsection \<open>The templates\<close>

lemma lex_raw_plain: "no_delim t \<Longrightarrow> lex_raw False acc t = Some (text_item (acc @ t))"
  by (induction t arbitrary: acc rule: no_delim.induct) auto

lemma lex_raw_upto_open:
  "CHR ''{'' \<notin> set t \<Longrightarrow>
   lex_raw False acc (t @ CHR ''{'' # CHR ''{'' # rest) =
     map_option (\<lambda>is. text_item (acc @ t) @ is) (lex_raw True [] rest)"
proof (induction t arbitrary: acc)
  case Nil
  then show ?case by simp
next
  case (Cons c t)
  then show ?case by (cases t) auto
qed

lemma lex_raw_AnsibleVersion:
  "lex_raw True [] ('' .AnsibleVersion}}'' @ rest) =
     map_option (\<lambda>is. ItemAction '' .AnsibleVersion'' # is) (lex_raw False [] rest)"
  by simp

lemma installer_text1_plain: "CHR ''{'' \<notin> set installer_text1"
  by (simp add: installer_text1_def)

lemma installer_text2_plain: "CHR ''{'' \<notin> set installer_text2"
  by (simp add: installer_text2_def)

lemma installer_text3_plain: "no_delim installer_text3"
  by (simp add: installer_text3_def)

lemma installer_texts_nonempty:
  "installer_text1 \<noteq> []" "installer_text2 \<noteq> []" "installer_text3 \<noteq> []"
  by (simp_all add: installer_text1_def installer_text2_def installer_text3_def)

lemma installer_lexed:
  "lex_raw False [] installerProgramTemplate =
     Some [ItemText installer_text1, ItemAction '' .AnsibleVersion'',
           ItemText installer_text2, ItemAction '' .AnsibleVersion'', ItemText installer_text3]"
proof -
  have eq: "installerProgramTemplate =
      installer_text1 @ CHR ''{'' # CHR ''{'' # ('' .AnsibleVersion}}'' @
      (installer_text2 @ CHR ''{'' # CHR ''{'' # ('' .AnsibleVersion}}'' @ installer_text3)))"
    by (simp add: installerProgramTemplate_def)
  show ?thesis
    unfolding eq lex_raw_upto_open [OF installer_text1_plain]
      lex_raw_upto_open [OF installer_text2_plain] lex_raw_AnsibleVersion
      lex_raw_plain [OF installer_text3_plain]
    by (simp add: text_item_def installer_texts_nonempty)
qed

text \<open>\<open>template.Must(template.New("installer").Parse(installerProgramTemplate))\<close> does not panic.\<close>

lemma installer_parsed: "template_Parse installerProgramTemplate = Inr installer_template"
  by (simp add: template_Parse_def lex_def installer_lexed installer_template_def
      text_item_def installer_texts_nonempty has_left_trim_def has_right_trim_def is_space_def
      strip_markers_def parse_expr_def)

text \<open>\<open>template.Must(template.New("hosts").Parse(inventoryTemplate))\<close> does not panic.\<close>

lemma hosts_parsed: "template_Parse inventoryTemplate = Inr hosts_template"
  by (simp add: template_Parse_def lex_def inventoryTemplate_def hosts_template_def
      host_line_nodes_def text_item_def is_space_def trim_left_def trim_right_def
      has_left_trim_def has_right_trim_def strip_markers_def parse_expr_def Let_def)

lemma exec_host_lines:
  "exec_range host_line_nodes (map TString hosts) vars = Inr (host_lines hosts)"
  by (induction hosts) (simp_all add: host_line_nodes_def host_lines_def)

lemma exec_group_sections:
  "map_of vars ''top'' = Some (TStruct fs) \<Longrightarrow>
   map_of fs ''Hosts'' = Some (TList (map TString hosts)) \<Longrightarrow>
   exec_range [TextNode ''['', ActionNode DotNode, TextNode '']\<newline>'',
               RangeNode (VariableFieldNode ''top'' ''Hosts'') host_line_nodes,
               TextNode ''\<newline>\<newline>''] (map TString groups) vars
   = Inr (concat (map (group_section hosts) groups))"
  by (induction groups) (simp_all add: exec_host_lines group_section_def)

lemma render_inventory:
  "template_Execute hosts_template (provisioner_data p) =
     Inr (host_lines (Hosts p) @ ''\<newline>\<newline>'' @
          concat (map (group_section (Hosts p)) (Groups p)))"
  by (simp add: template_Execute_def hosts_template_def provisioner_data_def exec_host_lines
      exec_group_sections)

text \<open>
  C5, as the specification states it, fails: for the hosts \<open>web1\<close> and the group \<open>app\<close> the
  rendered inventory is not the text with single blank lines that the claim gives.
\<close>

theorem inventory_claim_counterexample:
  "template_Execute hosts_template (provisioner_data web1_app) \<noteq>
     Inr ''web1 ansible_connection=local\<newline>\<newline>[app]\<newline>web1 ansible_connection=local\<newline>\<newline>''"
  by (simp add: render_inventory web1_app_def provisioner_all_def host_lines_def group_section_def)

text \<open>
  C5, amended. The template of the source parses to \<open>hosts_template\<close>, and executing it
  on a provisioner is a function of its hosts and groups: a line for every host, two
  newlines, and for every group its header in brackets, the line of every host again and
  two newlines. For the hosts \<open>web1\<close> and the group \<open>app\<close> this is the text of the claim with
  two blank lines, not one, after each block of host lines; with the \<open>localhost\<close> that
  \<open>decodeConfig\<close> appends, each block has the line of \<open>localhost\<close> as well.
\<close>

theorem inventory_rendering:
  "template_Parse inventoryTemplate = Inr hosts_template \<and>
   template_Execute hosts_template (provisioner_data p) =
     Inr (host_lines (Hosts p) @ ''\<newline>\<newline>'' @
          concat (map (group_section (Hosts p)) (Groups p))) \<and>
   (Hosts p = [''web1''] \<and> Groups p = [''app''] \<longrightarrow>
      template_Execute hosts_template (provisioner_data p) =
        Inr ''web1 ansible_connection=local\<newline>\<newline>\<newline>[app]\<newline>web1 ansible_connection=local\<newline>\<newline>\<newline>'') \<and>
   (Hosts p = [''web1'', ''localhost''] \<and> Groups p = [''app''] \<longrightarrow>
      template_Execute hosts_template (provisioner_data p) =
        Inr (''web1 ansible_connection=local\<newline>localhost ansible_connection=local\<newline>\<newline>\<newline>'' @
             ''[app]\<newline>web1 ansible_connection=local\<newline>localhost ansible_connection=local\<newline>\<newline>\<newline>''))"
  by (simp add: hosts_parsed render_inventory host_lines_def group_section_def)

theorem inventory_rendering_witness:
  "template_Execute hosts_template (provisioner_data web1_app) =
     Inr ''web1 ansible_connection=local\<newline>\<newline>\<newline>[app]\<newline>web1 ansible_connection=local\<newline>\<newline>\<newline>''"
proof -
  have h: "Hosts web1_app = [''web1''] \<and> Groups web1_app = [''app'']"
    by (simp add: web1_app_def)
  from inventory_rendering [of web1_app] h show ?thesis by blast
qed

subsection \<open>Running a command\<close>

text \<open>
  C3. Let \<open>c\<close> be the command as submitted (with \<open>sudo\<close> in front when \<open>useSudo\<close> is set).
  When \<open>comm.Start\<close> fails, \<open>runCommand\<close> returns the transport error at once: nothing but
  the call of \<open>Start\<close> is added to the log. When the command is started, \<open>runCommand\<close>
  returns an error if and only if the recorded exit status is not zero; the error then
  holds \<open>c\<close> and the exit status, and for exit status zero the result is \<open>nil\<close>.
\<close>

theorem runCommand_result:
  assumes "c = (if useSudo p then ''sudo '' @ command else command)"
  shows "case comm_Start env w c of
           Inl err \<Rightarrow>
             runCommand p env command w = (Some (ErrorExecutingCommand c err), w @ [Start c])
         | Inr cmd \<Rightarrow>
             (fst (runCommand p env command w) \<noteq> None \<longleftrightarrow> ExitStatus cmd \<noteq> 0) \<and>
             (ExitStatus cmd \<noteq> 0 \<longrightarrow>
                fst (runCommand p env command w) = Some (NonZeroExit c (ExitStatus cmd))) \<and>
             (ExitStatus cmd = 0 \<longrightarrow> fst (runCommand p env command w) = None)"
  using assms by (simp add: runCommand_def Let_def split: sum.split)

theorem runCommand_result_witness:
  "fst (runCommand provisioner_all env0 ''rm -rf /tmp'' []) =
     Some (NonZeroExit ''sudo rm -rf /tmp'' 1)
   \<and> fst (runCommand provisioner_all env0 ''true'' []) = None
   \<and> runCommand provisioner_all env_refused ''true'' [] =
       (Some (ErrorExecutingCommand ''sudo true'' (External ''ssh: session closed'')),
        [Start ''sudo true''])"
proof -
  have a: "''sudo rm -rf /tmp'' =
      (if useSudo provisioner_all then ''sudo '' @ ''rm -rf /tmp'' else ''rm -rf /tmp'')"
    by (simp add: provisioner_all_def)
  have b: "''sudo true'' = (if useSudo provisioner_all then ''sudo '' @ ''true'' else ''true'')"
    by (simp add: provisioner_all_def)
  from runCommand_result [OF a, of env0 "[]"] runCommand_result [OF b, of env0 "[]"]
       runCommand_result [OF b, of env_refused "[]"]
  show ?thesis
    by (simp add: env0_def env_refused_def)
qed

subsection \<open>Decoding the configuration\<close>

lemma bindp_Inr [simp]: "bindp (Inr x) f = f x"
  by (simp add: bindp_def)

lemma is_GString_E: "is_GString v \<Longrightarrow> \<exists>s. v = GString s"
  by (cases v) (simp_all add: is_GString_def)

lemma is_GList_E: "is_GList v \<Longrightarrow> \<exists>vs. v = GList vs"
  by (cases v) (simp_all add: is_GList_def)

lemma is_GMap_E: "is_GMap v \<Longrightarrow> \<exists>m. v = GMap m"
  by (cases v) (simp_all add: is_GMap_def)

lemma is_GInt_E: "is_GInt v \<Longrightarrow> \<exists>i. v = GInt i"
  by (cases v) (simp_all add: is_GInt_def)

lemma is_GBool_E: "is_GBool v \<Longrightarrow> \<exists>b. v = GBool b"
  by (cases v) (simp_all add: is_GBool_def)

lemma assert_string_typed: "is_GString v \<Longrightarrow> \<exists>s. assert_string v = Inr s"
  by (auto dest!: is_GString_E simp: assert_string_def)

lemma assert_int_typed: "is_GInt v \<Longrightarrow> \<exists>i. assert_int v = Inr i"
  by (auto dest!: is_GInt_E simp: assert_int_def)

lemma assert_bool_typed: "is_GBool v \<Longrightarrow> \<exists>b. assert_bool v = Inr b"
  by (auto dest!: is_GBool_E simp: assert_bool_def)

lemma getStringList_typed: "is_GList v \<Longrightarrow> \<exists>xs. getStringList v = Inr xs"
  by (auto dest!: is_GList_E simp: getStringList_def)

lemma getStringMap_typed: "is_GMap v \<Longrightarrow> \<exists>m. getStringMap v = Inr m"
  by (auto dest!: is_GMap_E simp: getStringMap_def)

lemma getStringList_hosts:
  "getStringList (d ''hosts'') = Inr hs \<Longrightarrow> hs = configured_hosts d"
  by (auto simp: getStringList_def configured_hosts_def split: gval.splits)

lemma decodeConfig_Hosts:
  assumes "decodeConfig d = Inr p"
  shows "Hosts p = configured_hosts d @ [''localhost'']"
  using assms unfolding decodeConfig_def
  by (auto simp: bindp_def Let_def split: sum.splits dest!: getStringList_hosts)

text \<open>On a configuration of the types of the schema no type assertion fails.\<close>

lemma decodeConfig_typed:
  assumes "schema_typed d"
  shows "\<exists>p. decodeConfig d = Inr p"
proof -
  from assms have s:
    "is_GString (d ''playbook'')" "is_GString (d ''start_at_task'')" "is_GString (d ''limit'')"
    "is_GString (d ''become_method'')" "is_GString (d ''become_user'')"
    "is_GString (d ''vault_password_file'')" "is_GString (d ''install_version'')"
    and l: "is_GList (d ''hosts'')" "is_GList (d ''groups'')" "is_GList (d ''tags'')"
    "is_GList (d ''skip_tags'')"
    and m: "is_GMap (d ''extra_vars'')"
    and i: "is_GInt (d ''forks'')"
    and b: "is_GBool (d ''verbose'')" "is_GBool (d ''force_handlers'')" "is_GBool (d ''become'')"
    "is_GBool (d ''use_sudo'')" "is_GBool (d ''skip_install'')" "is_GBool (d ''skip_cleanup'')"
    by (simp_all add: schema_typed_def)
  note ex = s [THEN assert_string_typed] l [THEN getStringList_typed] m [THEN getStringMap_typed]
    i [THEN assert_int_typed] b [THEN assert_bool_typed]
  from ex show ?thesis
    by (auto simp add: decodeConfig_def Let_def)
qed

text \<open>
  C4, as the specification states it, fails: a configuration of the types of the schema
  whose \<open>hosts\<close> list names \<open>localhost\<close> is decoded to a \<open>Hosts\<close> list in which
  \<open>localhost\<close> is present twice, not once.
\<close>

theorem decodeConfig_localhost_counterexample:
  "schema_typed config_localhost \<and>
   map_sum id Hosts (decodeConfig config_localhost) = Inr [''localhost'', ''localhost''] \<and>
   count_list [''localhost'', ''localhost''] ''localhost'' \<noteq> (1::nat)"
  by (simp add: schema_typed_def config_localhost_def config0_def is_GString_def is_GList_def
      is_GMap_def is_GInt_def is_GBool_def decodeConfig_def assert_string_def assert_int_def
      assert_bool_def getStringList_def getStringMap_def Let_def)

text \<open>
  C4, amended. On every configuration of the types of the schema \<open>decodeConfig\<close> returns
  a provisioner whose \<open>Hosts\<close> are the configured hosts followed by one appended
  \<open>localhost\<close>: the list is never empty, its last element is \<open>localhost\<close>, and
  \<open>localhost\<close> is in it once more than in the configured hosts (so exactly once when
  the configuration does not name it).
\<close>

theorem decodeConfig_localhost:
  assumes "schema_typed d"
  shows "\<exists>p. decodeConfig d = Inr p \<and>
             Hosts p = configured_hosts d @ [''localhost''] \<and>
             Hosts p \<noteq> [] \<and> last (Hosts p) = ''localhost'' \<and>
             count_list (Hosts p) ''localhost'' =
               Suc (count_list (configured_hosts d) ''localhost'')"
proof -
  from decodeConfig_typed [OF assms] obtain p where p: "decodeConfig d = Inr p" ..
  from decodeConfig_Hosts [OF p] have "Hosts p = configured_hosts d @ [''localhost'']" .
  with p show ?thesis by auto
qed

theorem decodeConfig_localhost_witness:
  "map_sum id Hosts (decodeConfig config0) = Inr [''web1'', ''localhost'']"
proof -
  have h: "schema_typed config0"
    by (simp add: schema_typed_def config0_def is_GString_def is_GList_def is_GMap_def
        is_GInt_def is_GBool_def)
  from decodeConfig_localhost [OF h] obtain p where
    "decodeConfig config0 = Inr p" "Hosts p = configured_hosts config0 @ [''localhost'']"
    by blast
  then show ?thesis
    by (simp add: configured_hosts_def config0_def)
qed

subsection \<open>Retrying\<close>

lemma retry_loop_last:
  "\<exists>n. (\<forall>k<n. fst (fst (f ((attempt f ^^ k) w))) \<noteq> None) \<and>
       retry_loop env timeout f elapsed w =
         (fst (fst (f ((attempt f ^^ n) w))), (attempt f ^^ Suc n) w)"
proof (induction env timeout f elapsed w rule: retry_loop.induct)
  case (1 env timeout f elapsed w)
  obtain r d w1 where fw: "f w = ((r, d), w1)" by (metis prod.collapse)
  show ?case
  proof (cases r)
    case None
    with fw have "retry_loop env timeout f elapsed w = (None, w1)"
      by (simp add: retry_loop.simps)
    with fw None have "(\<forall>k<0::nat. fst (fst (f ((attempt f ^^ k) w))) \<noteq> None) \<and>
       retry_loop env timeout f elapsed w =
         (fst (fst (f ((attempt f ^^ 0) w))), (attempt f ^^ Suc 0) w)"
      by (simp add: attempt_def)
    then show ?thesis by blast
  next
    case (Some err)
    let ?w2 = "w1 @ [Log err]"
    let ?now = "elapsed + max 0 d"
    from fw Some have att: "attempt f w = ?w2" by (simp add: attempt_def)
    show ?thesis
    proof (cases "timeout < ?now + three_seconds \<or>
                 (timeout = ?now + three_seconds \<and> select_finish env ?w2)")
      case True
      with fw Some have "retry_loop env timeout f elapsed w = (Some err, ?w2)"
        by (simp add: retry_loop.simps [of env timeout f elapsed w] Let_def)
      with fw Some att have "(\<forall>k<0::nat. fst (fst (f ((attempt f ^^ k) w))) \<noteq> None) \<and>
         retry_loop env timeout f elapsed w =
           (fst (fst (f ((attempt f ^^ 0) w))), (attempt f ^^ Suc 0) w)"
        by simp
      then show ?thesis by blast
    next
      case False
      with fw Some have eq: "retry_loop env timeout f elapsed w =
          retry_loop env timeout f (?now + three_seconds) ?w2"
        by (subst retry_loop.simps) (auto simp add: Let_def)
      from "1.IH" [OF fw [symmetric] refl Some refl refl False]
      obtain n where n: "\<forall>k<n. fst (fst (f ((attempt f ^^ k) ?w2))) \<noteq> None"
        and r: "retry_loop env timeout f (?now + three_seconds) ?w2 =
                  (fst (fst (f ((attempt f ^^ n) ?w2))), (attempt f ^^ Suc n) ?w2)"
        by blast
      have shift: "\<And>k. (attempt f ^^ k) ?w2 = (attempt f ^^ Suc k) w"
        by (simp add: att funpow_swap1)
      have "\<forall>k<Suc n. fst (fst (f ((attempt f ^^ k) w))) \<noteq> None"
      proof (intro allI impI)
        fix k assume "k < Suc n"
        show "fst (fst (f ((attempt f ^^ k) w))) \<noteq> None"
        proof (cases k)
          case 0
          with fw Some show ?thesis by simp
        next
          case (Suc j)
          with \<open>k < Suc n\<close> have "j < n" by simp
          with n have "fst (fst (f ((attempt f ^^ j) ?w2))) \<noteq> None" by blast
          then have "fst (fst (f ((attempt f ^^ Suc j) w))) \<noteq> None" unfolding shift .
          with Suc show ?thesis by blast
        qed
      qed
      moreover from r have "retry_loop env timeout f (?now + three_seconds) ?w2 =
          (fst (fst (f ((attempt f ^^ Suc n) w))), (attempt f ^^ Suc (Suc n)) w)"
        unfolding shift .
      with eq have "retry_loop env timeout f elapsed w =
          (fst (fst (f ((attempt f ^^ Suc n) w))), (attempt f ^^ Suc (Suc n)) w)"
        by (rule trans)
      ultimately show ?thesis by blast
    qed
  qed
qed

text \<open>
  C2. \<open>retryFunc\<close> returns, after some number \<open>n + 1\<close> of attempts: the first \<open>n\<close> calls of
  \<open>f\<close> failed, and what \<open>retryFunc\<close> returns is what the last call of \<open>f\<close> returned, with
  the log as that attempt left it. So when a call of \<open>f\<close> succeeds \<open>retryFunc\<close> returns
  \<open>nil\<close> at once, and otherwise it returns the error of the most recent call, which is
  the only kind of error it can return: when \<open>f\<close> fails on every call, the result is
  not \<open>nil\<close>.
\<close>

theorem retryFunc_last_error:
  "(\<exists>n. (\<forall>k<n. fst (fst (f ((attempt f ^^ k) w))) \<noteq> None) \<and>
        retryFunc env timeout f w =
          (fst (fst (f ((attempt f ^^ n) w))), (attempt f ^^ Suc n) w)) \<and>
   ((\<forall>w'. fst (fst (f w')) \<noteq> None) \<longrightarrow> fst (retryFunc env timeout f w) \<noteq> None)"
proof -
  from retry_loop_last [of f w env timeout 0]
  obtain n where n: "\<forall>k<n. fst (fst (f ((attempt f ^^ k) w))) \<noteq> None"
    and r: "retryFunc env timeout f w =
              (fst (fst (f ((attempt f ^^ n) w))), (attempt f ^^ Suc n) w)"
    unfolding retryFunc_def by blast
  from r have "(\<forall>w'. fst (fst (f w')) \<noteq> None) \<longrightarrow> fst (retryFunc env timeout f w) \<noteq> None"
    by simp
  with n r show ?thesis by blast
qed

theorem retryFunc_last_error_witness:
  "fst (retryFunc env_unreachable 7000000000 (connect env_unreachable) []) \<noteq> None \<and>
   retryFunc env_unreachable 7000000000 (connect env_unreachable) [] =
     (Some (External ''dial tcp: attempt 1''),
      [Connect (Some (External ''dial tcp: attempt 0'')), Log (External ''dial tcp: attempt 0''),
       Connect (Some (External ''dial tcp: attempt 1'')), Log (External ''dial tcp: attempt 1'')])"
proof -
  have h: "\<forall>w'. fst (fst (connect env_unreachable w')) \<noteq> None"
    by (simp add: connect_def env_unreachable_def)
  from retryFunc_last_error [of "connect env_unreachable" "[]" env_unreachable 7000000000] h
  have "fst (retryFunc env_unreachable 7000000000 (connect env_unreachable) []) \<noteq> None"
    by blast
  moreover have "retryFunc env_unreachable 7000000000 (connect env_unreachable) [] =
     (Some (External ''dial tcp: attempt 1''),
      [Connect (Some (External ''dial tcp: attempt 0'')), Log (External ''dial tcp: attempt 0''),
       Connect (Some (External ''dial tcp: attempt 1'')), Log (External ''dial tcp: attempt 1'')])"
    by (simp add: retryFunc_def retry_loop.simps connect_def env_unreachable_def env0_def
        three_seconds_def fmt_d_def decimal.simps digit_char_def)
  ultimately show ?thesis by blast
qed

subsection \<open>What the steps add to the log\<close>

lemma extends_plain_refl [simp]: "extends_plain w w"
  by (simp add: extends_plain_def)

lemma extends_plain_trans: "extends_plain w w' \<Longrightarrow> extends_plain w' w'' \<Longrightarrow> extends_plain w w''"
  by (auto simp: extends_plain_def)

lemma extends_plain_append: "list_all plain es \<Longrightarrow> extends_plain w (w @ es)"
  by (auto simp: extends_plain_def)

lemma extends_plain_snoc: "extends_plain w w' \<Longrightarrow> list_all plain es \<Longrightarrow> extends_plain w (w' @ es)"
  by (auto simp: extends_plain_def)

lemma marks_extends_plain: "extends_plain w w' \<Longrightarrow> marks w' = marks w"
  by (auto simp: extends_plain_def marks_def list_all_iff filter_empty_conv)

lemma runCommand_plain: "extends_plain w (snd (runCommand p env c w))"
  by (auto simp: runCommand_def Let_def extends_plain_def list_all_iff split: sum.splits)

lemma run_commands_plain: "extends_plain w (run_commands p env cs w)"
proof (induction cs arbitrary: w)
  case Nil
  then show ?case by (simp add: run_commands_def)
next
  case (Cons c cs)
  have "run_commands p env (c # cs) w = run_commands p env cs (snd (runCommand p env c w))"
    by (simp add: run_commands_def)
  with Cons [of "snd (runCommand p env c w)"] runCommand_plain [of w p env c]
  show ?case by (auto intro: extends_plain_trans)
qed

lemma resolvePath_plain: "extends_plain w (snd (resolvePath env path w))"
  by (auto simp: resolvePath_def Let_def extends_plain_def split: option.splits)

lemma runCommand_plain': "extends_plain w w' \<Longrightarrow> extends_plain w (snd (runCommand p env c w'))"
  by (blast intro: extends_plain_trans runCommand_plain)

lemma run_commands_plain': "extends_plain w w' \<Longrightarrow> extends_plain w (run_commands p env cs w')"
  by (blast intro: extends_plain_trans run_commands_plain)

lemmas plain_intros = extends_plain_refl extends_plain_snoc runCommand_plain' run_commands_plain'

lemma uploadInventory_plain: "extends_plain w (snd (uploadInventory p env w))"
  unfolding uploadInventory_def Let_def render_inventory
  by (auto split: option.split intro!: plain_intros)

lemma uploadVaultPasswordFile_plain: "extends_plain w (snd (uploadVaultPasswordFile p env path w))"
  unfolding uploadVaultPasswordFile_def Let_def
  by (auto split: sum.split option.split intro!: plain_intros)

lemma cleanupAfterBootstrap_plain: "extends_plain w (snd (cleanupAfterBootstrap p env w))"
  unfolding cleanupAfterBootstrap_def Let_def
  by (auto intro!: plain_intros)

lemma installer_rendered:
  "template_Execute installer_template (TStruct [(''AnsibleVersion'', TString v)]) =
     Inr (installer_text1 @ v @ installer_text2 @ v @ installer_text3)"
  by (simp add: template_Execute_def installer_template_def)

lemma installAnsible_plain: "extends_plain w (snd (installAnsible p env w))"
  unfolding installAnsible_def Let_def split_def installer_rendered
  by (auto split: option.split intro!: plain_intros)

lemma marks_Nil [simp]: "marks [] = []"
  by (simp add: marks_def)

lemma marks_Cons [simp]: "marks (e # w) = (if plain e then marks w else e # marks w)"
  by (simp add: marks_def)

lemma marks_append [simp]: "marks (w @ w') = marks w @ marks w'"
  by (simp add: marks_def)

lemmas marks_plain =
  runCommand_plain [THEN marks_extends_plain]
  run_commands_plain [THEN marks_extends_plain]
  resolvePath_plain [THEN marks_extends_plain]
  uploadInventory_plain [THEN marks_extends_plain]
  uploadVaultPasswordFile_plain [THEN marks_extends_plain]
  cleanupAfterBootstrap_plain [THEN marks_extends_plain]
  installAnsible_plain [THEN marks_extends_plain]

lemma marks_traced:
  assumes "\<And>w. marks (snd (f w)) = marks w"
  shows "marks (snd (traced s f w)) = marks w @ [Enter s, Leave s (fst (traced s f w))]"
  using assms [of "w @ [Enter s]"] by (simp add: traced_def split_def)

lemma marks_traced_val:
  assumes "\<And>w. marks (snd (f w)) = marks w"
  shows "marks (snd (traced_val s f w)) =
           marks w @ [Enter s, Leave s (error_of (fst (traced_val s f w)))]"
  using assms [of "w @ [Enter s]"] by (simp add: traced_val_def split_def)

lemma traced_marksD:
  assumes "traced s f w = (r, w')" and "\<And>w. marks (snd (f w)) = marks w"
  shows "marks w' = marks w @ [Enter s, Leave s r]"
  using marks_traced [of f s w] assms by simp

lemma traced_val_marksD:
  assumes "traced_val s f w = (r, w')" and "\<And>w. marks (snd (f w)) = marks w"
  shows "marks w' = marks w @ [Enter s, Leave s (error_of r)]"
  using marks_traced_val [of f s w] assms by simp

lemmas step_marks =
  traced_val_marksD [where f = "resolvePath env path" for env path, OF _ marks_plain(3)]
  traced_val_marksD [where f = "uploadVaultPasswordFile p env path" for p env path, OF _ marks_plain(5)]
  traced_marksD [where f = "uploadInventory p env" for p env, OF _ marks_plain(4)]
  traced_marksD [where f = "runCommand p env c" for p env c, OF _ marks_plain(1)]
  traced_marksD [where f = "cleanupAfterBootstrap p env" for p env, OF _ marks_plain(6)]
  traced_marksD [where f = "installAnsible p env" for p env, OF _ marks_plain(7)]

lemma UploadDir_step:
  "traced Step_UploadDir (\<lambda>w. (comm_UploadDir env w a b, w @ [UploadDir a b])) w = (r, w') \<Longrightarrow>
   marks w' = marks w @ [Enter Step_UploadDir, Leave Step_UploadDir r]"
  by (erule traced_marksD) simp

lemma commandBuilder_step:
  "traced_val Step_commandBuilder (\<lambda>w. (x, w)) w = (r, w') \<Longrightarrow>
   marks w' = marks w @ [Enter Step_commandBuilder, Leave Step_commandBuilder (error_of r)]"
  by (erule traced_val_marksD) simp

lemma cleanup_step:
  "marks (snd (traced Step_cleanupAfterBootstrap (cleanupAfterBootstrap p env) w)) =
   marks w @ [Enter Step_cleanupAfterBootstrap, Leave Step_cleanupAfterBootstrap None]"
  by (simp add: marks_traced marks_plain traced_def split_def cleanupAfterBootstrap_def Let_def)

lemma step_sum:
  assumes "(case m of (Inl err, w) \<Rightarrow> (Some err, w) | (Inr x, w) \<Rightarrow> k x w) = (r, w')"
  obtains (fail) err where "m = (Inl err, w')" "r = Some err"
        | (ok) x w1 where "m = (Inr x, w1)" "k x w1 = (r, w')"
  using assms by (auto split: prod.splits sum.splits)

lemma step_opt:
  assumes "(case m of (Some err, w) \<Rightarrow> (Some err, w) | (None, w) \<Rightarrow> k w) = (r, w')"
  obtains (fail) err where "m = (Some err, w')" "r = Some err"
        | (ok) w1 where "m = (None, w1)" "k w1 = (r, w')"
  using assms by (auto split: prod.splits option.splits)

lemma vault_block:
  assumes "(if v \<noteq> [] then
              (case traced_val Step_resolvePath (resolvePath env v) w of
                 (Inl err, w) \<Rightarrow> (Inl err, w)
               | (Inr vaultPasswordFilePath, w) \<Rightarrow>
                   traced_val Step_uploadVaultPasswordFile
                     (uploadVaultPasswordFile p env vaultPasswordFilePath) w)
            else (Inr [], w)) = (r, w')"
  shows "\<exists>ms. marks w' = marks w @ ms \<and> list_all is_mark ms \<and>
           Leave Step_runCommand None \<notin> set ms \<and>
           (error_of r = None \<longrightarrow>
              ms = (if v \<noteq> []
                    then [Enter Step_resolvePath, Leave Step_resolvePath None,
                          Enter Step_uploadVaultPasswordFile, Leave Step_uploadVaultPasswordFile None]
                    else []))"
  using assms
  by (auto split: if_splits prod.splits sum.splits dest!: step_marks simp: error_of_def)

lemma deploy_marks:
  assumes "deployAnsibleModule p env w = (r, w')"
  shows "\<exists>ms. marks w' = marks w @ ms \<and> list_all is_mark ms \<and>
           (r = None \<longrightarrow> ms = deploy_success_marks p) \<and>
           (r \<noteq> None \<longrightarrow> Leave Step_runCommand None \<notin> set ms)"
  using assms unfolding deployAnsibleModule_def Let_def length_greater_0_conv
  apply (elim step_sum step_opt)
  apply (auto dest!: vault_block step_marks UploadDir_step commandBuilder_step
      simp: deploy_success_marks_def error_of_def cleanup_step
      simp del: filepath_Join.simps)
  done

lemma connect_marks: "marks (snd (connect env w)) = marks w @ [Connect (fst (fst (connect env w)))]"
  by (simp add: connect_def split_def)

lemma retry_connect_marks:
  "\<exists>rs. marks (snd (retry_loop env t (connect env) elapsed w)) = marks w @ map Connect rs \<and>
        rs \<noteq> [] \<and> last rs = fst (retry_loop env t (connect env) elapsed w) \<and>
        None \<notin> set (butlast rs)"
proof (induction env t "connect env" elapsed w rule: retry_loop.induct)
  case (1 env timeout elapsed w)
  obtain r d w1 where fw: "connect env w = ((r, d), w1)" by (metis prod.collapse)
  with connect_marks [of env w] have m1: "marks w1 = marks w @ [Connect r]" by simp
  show ?case
  proof (cases r)
    case None
    with fw have "retry_loop env timeout (connect env) elapsed w = (None, w1)"
      by (simp add: retry_loop.simps)
    with m1 None have "marks (snd (retry_loop env timeout (connect env) elapsed w)) =
        marks w @ map Connect [None] \<and> [None :: error option] \<noteq> [] \<and>
        last [None] = fst (retry_loop env timeout (connect env) elapsed w) \<and>
        None \<notin> set (butlast [None :: error option])"
      by simp
    then show ?thesis by blast
  next
    case (Some err)
    let ?w2 = "w1 @ [Log err]"
    let ?now = "elapsed + max 0 d"
    from m1 have m2: "marks ?w2 = marks w @ [Connect r]" by simp
    show ?thesis
    proof (cases "timeout < ?now + three_seconds \<or>
                 (timeout = ?now + three_seconds \<and> select_finish env ?w2)")
      case True
      with fw Some have "retry_loop env timeout (connect env) elapsed w = (Some err, ?w2)"
        by (simp add: retry_loop.simps [of env timeout "connect env" elapsed w] Let_def)
      with m2 Some have "marks (snd (retry_loop env timeout (connect env) elapsed w)) =
          marks w @ map Connect [Some err] \<and> [Some err] \<noteq> [] \<and>
          last [Some err] = fst (retry_loop env timeout (connect env) elapsed w) \<and>
          None \<notin> set (butlast [Some err])"
        by simp
      then show ?thesis by blast
    next
      case False
      with fw Some have eq: "retry_loop env timeout (connect env) elapsed w =
          retry_loop env timeout (connect env) (?now + three_seconds) ?w2"
        by (subst retry_loop.simps) (auto simp add: Let_def)
      from "1.hyps" [OF fw [symmetric] refl Some refl refl False]
      obtain rs where rs: "marks (snd (retry_loop env timeout (connect env) (?now + three_seconds) ?w2)) =
            marks ?w2 @ map Connect rs" "rs \<noteq> []"
          "last rs = fst (retry_loop env timeout (connect env) (?now + three_seconds) ?w2)"
          "None \<notin> set (butlast rs)"
        by blast
      with eq m2 Some have "marks (snd (retry_loop env timeout (connect env) elapsed w)) =
          marks w @ map Connect (Some err # rs) \<and> Some err # rs \<noteq> [] \<and>
          last (Some err # rs) = fst (retry_loop env timeout (connect env) elapsed w) \<and>
          None \<notin> set (butlast (Some err # rs))"
        by simp
      then show ?thesis by blast
    qed
  qed
qed

subsection \<open>The marks of a whole run\<close>

lemma applyFn_marks:
  assumes "applyFn d env = (Inr r, tr)" and "decodeConfig d = Inr p"
    and "communicator_New env = None"
  shows "\<exists>rs ms. marks tr = map Connect rs @ (if last rs = None then ms @ [Disconnect] else []) \<and>
           rs \<noteq> [] \<and> None \<notin> set (butlast rs) \<and> list_all is_mark ms \<and>
           (last rs \<noteq> None \<longrightarrow> r = last rs) \<and>
           (last rs = None \<longrightarrow> tr \<noteq> [] \<and> last tr = Disconnect) \<and>
           (r = None \<longrightarrow> last rs = None \<and>
              ms = (if \<not> skipInstall p
                    then [Enter Step_installAnsible, Leave Step_installAnsible None] else []) @
                   deploy_success_marks p) \<and>
           (r \<noteq> None \<longrightarrow> Leave Step_runCommand None \<notin> set ms) \<and>
           last rs = fst (retryFunc env (comm_Timeout env) (connect env) [])"
proof -
  obtain rc w0 where ret: "retryFunc env (comm_Timeout env) (connect env) [] = (rc, w0)"
    by force
  from retry_connect_marks [of env "comm_Timeout env" 0 "[]"] ret
  obtain rs where rs: "marks w0 = map Connect rs" "rs \<noteq> []" "last rs = rc"
    "None \<notin> set (butlast rs)"
    by (auto simp: retryFunc_def)
  show ?thesis
  proof (cases rc)
    case (Some err)
    with assms ret have "r = Some err" "tr = w0" by (auto simp: applyFn_def)
    with rs Some ret show ?thesis
      by (intro exI [of _ rs] exI [of _ "[]"]) auto
  next
    case None
    define inst where "inst = (if \<not> skipInstall p
        then traced Step_installAnsible (installAnsible p env) w0 else (None, w0))"
    obtain ri w1 where inst_eq: "inst = (ri, w1)" by force
    then have m1: "marks w1 = marks w0 @
        (if \<not> skipInstall p then [Enter Step_installAnsible, Leave Step_installAnsible ri] else [])"
      by (auto simp: inst_def dest: step_marks split: if_splits)
    from None assms ret have
       "(case (case inst of
                 (Some err, w) \<Rightarrow> (Some err, w)
               | (None, w) \<Rightarrow>
                   (case deployAnsibleModule p env w of
                      (Some err, w) \<Rightarrow> (Some err, w @ [OutputError err])
                    | (None, w) \<Rightarrow> (None, w))) of
           (r, w) \<Rightarrow> (Inr r, w @ [Disconnect])) = (Inr r :: panic + error option, tr)"
      unfolding inst_def by (simp add: applyFn_def split del: if_split)
    then have app:
       "(case (case (ri, w1) of
                 (Some err, w) \<Rightarrow> (Some err, w)
               | (None, w) \<Rightarrow>
                   (case deployAnsibleModule p env w of
                      (Some err, w) \<Rightarrow> (Some err, w @ [OutputError err])
                    | (None, w) \<Rightarrow> (None, w))) of
           (r, w) \<Rightarrow> (Inr r, w @ [Disconnect])) = (Inr r :: panic + error option, tr)"
      unfolding inst_eq .
    show ?thesis
    proof (cases ri)
      case (Some err)
      with app have "r = Some err" "tr = w1 @ [Disconnect]" by auto
      with m1 rs None Some ret show ?thesis
        by (intro exI [of _ rs]
            exI [of _ "if \<not> skipInstall p
              then [Enter Step_installAnsible, Leave Step_installAnsible ri] else []"]) auto
    next
      case ri: None
      obtain rd w2 where dep: "deployAnsibleModule p env w1 = (rd, w2)" by force
      from deploy_marks [OF dep] obtain ms where ms: "marks w2 = marks w1 @ ms"
        "list_all is_mark ms" "rd = None \<longrightarrow> ms = deploy_success_marks p"
        "rd \<noteq> None \<longrightarrow> Leave Step_runCommand None \<notin> set ms"
        by blast
      from app ri dep have r: "r = rd"
        and tr: "marks tr = marks w2 @ [Disconnect]"
        and lt: "tr \<noteq> [] \<and> last tr = Disconnect"
        by (auto split: option.splits)
      let ?ms = "(if \<not> skipInstall p
              then [Enter Step_installAnsible, Leave Step_installAnsible None] else []) @ ms"
      from r tr lt ms m1 rs None ri ret show ?thesis
        by (intro exI [of _ rs] exI [of _ ?ms]) auto
    qed
  qed
qed

lemma mem_marks: "e \<in> set (marks w) \<longleftrightarrow> e \<in> set w \<and> \<not> plain e"
  by (auto simp: marks_def)

lemma count_list_marks: "\<not> plain x \<Longrightarrow> count_list (marks w) x = count_list w x"
  by (induction w) auto

lemma is_mark_not_link: "list_all is_mark ms \<Longrightarrow> Disconnect \<notin> set ms \<and> Connect r \<notin> set ms"
  by (induction ms) auto

lemma count_list_0: "x \<notin> set xs \<Longrightarrow> count_list xs x = 0"
  by (induction xs) auto

lemma applyFn_marksE:
  assumes "applyFn d env = (Inr r, tr)" and "decodeConfig d = Inr p"
    and "communicator_New env = None"
  obtains rs ms where
    "marks tr = map Connect rs @ (if last rs = None then ms @ [Disconnect] else [])"
    "rs \<noteq> []" "None \<notin> set (butlast rs)" "list_all is_mark ms"
    "last rs \<noteq> None \<longrightarrow> r = last rs"
    "last rs = None \<longrightarrow> tr \<noteq> [] \<and> last tr = Disconnect"
    "r = None \<longrightarrow> last rs = None \<and>
       ms = (if \<not> skipInstall p
             then [Enter Step_installAnsible, Leave Step_installAnsible None] else []) @
            deploy_success_marks p"
    "r \<noteq> None \<longrightarrow> Leave Step_runCommand None \<notin> set ms"
    "last rs = fst (retryFunc env (comm_Timeout env) (connect env) [])"
proof -
  from applyFn_marks [OF assms] obtain rs ms where
    "marks tr = map Connect rs @ (if last rs = None then ms @ [Disconnect] else []) \<and>
           rs \<noteq> [] \<and> None \<notin> set (butlast rs) \<and> list_all is_mark ms \<and>
           (last rs \<noteq> None \<longrightarrow> r = last rs) \<and>
           (last rs = None \<longrightarrow> tr \<noteq> [] \<and> last tr = Disconnect) \<and>
           (r = None \<longrightarrow> last rs = None \<and>
              ms = (if \<not> skipInstall p
                    then [Enter Step_installAnsible, Leave Step_installAnsible None] else []) @
                   deploy_success_marks p) \<and>
           (r \<noteq> None \<longrightarrow> Leave Step_runCommand None \<notin> set ms) \<and>
           last rs = fst (retryFunc env (comm_Timeout env) (connect env) [])"
    by (elim exE)
  then show thesis
    by (elim conjE) (rule that)
qed

lemma mem_last_only: "rs \<noteq> [] \<Longrightarrow> x \<notin> set (butlast rs) \<Longrightarrow> x \<in> set rs \<longleftrightarrow> last rs = x"
  by (induction rs) (auto split: if_splits)

lemma count_Disconnect_Connects [simp]: "count_list (map Connect rs) Disconnect = 0"
  by (induction rs) auto

lemma applyFn_cases:
  assumes "applyFn d env = (r, tr)"
  obtains (unconnected) "tr = []"
  | (connected) p r0 where "decodeConfig d = Inr p" "communicator_New env = None" "r = Inr r0"
  using assms unfolding applyFn_def
  by (auto split: sum.splits option.splits prod.splits)

subsection \<open>The end of a successful deployment\<close>





lemma applyFn_unconnected:
  assumes "applyFn d env = (r, tr)" and "tr = []"
  shows "\<not> ((\<exists>p. decodeConfig d = Inr p) \<and> communicator_New env = None \<and>
             fst (retryFunc env (comm_Timeout env) (connect env) []) = None)"
  using assms unfolding applyFn_def
  by (auto split: sum.splits option.splits prod.splits)

subsection \<open>The outcome of the workflow\<close>


text \<open>
  C9. In every run of \<open>applyFn\<close>, \<open>comm.Disconnect\<close> is called exactly once if a call of
  \<open>comm.Connect\<close> succeeded, and then it is the last event of the run, on every path by
  which \<open>applyFn\<close> returns; it is not called at all if no call of \<open>comm.Connect\<close>
  succeeded. A call of \<open>comm.Connect\<close> succeeds in a run exactly when the configuration
  decodes, the communicator is created and \<open>retryFunc\<close> returns \<open>nil\<close> for the connection.
\<close>

theorem disconnect_exactly_once:
  assumes "applyFn d env = (r, tr)"
  shows "count_list tr Disconnect = (if Connect None \<in> set tr then 1 else 0) \<and>
         (Connect None \<in> set tr \<longrightarrow> last tr = Disconnect) \<and>
         (Connect None \<in> set tr \<longleftrightarrow>
            (\<exists>p. decodeConfig d = Inr p) \<and> communicator_New env = None \<and>
            fst (retryFunc env (comm_Timeout env) (connect env) []) = None)"
  using assms
proof (cases rule: applyFn_cases)
  case unconnected
  with applyFn_unconnected [OF assms] show ?thesis by simp
next
  case (connected p r0)
  from assms(1) [unfolded connected(3)] connected(1,2)
  obtain rs ms where m: "marks tr = map Connect rs @ (if last rs = None then ms @ [Disconnect] else [])"
    and rs: "rs \<noteq> []" "None \<notin> set (butlast rs)" and ms: "list_all is_mark ms"
    and l: "last rs = None \<longrightarrow> tr \<noteq> [] \<and> last tr = Disconnect"
    and c0: "last rs = fst (retryFunc env (comm_Timeout env) (connect env) [])"
    by (rule applyFn_marksE)
  have c: "Connect None \<in> set tr \<longleftrightarrow> last rs = None"
  proof -
    have "Connect None \<in> set tr \<longleftrightarrow> Connect None \<in> set (marks tr)"
      by (simp add: mem_marks)
    also have "\<dots> \<longleftrightarrow> None \<in> set rs"
      using m is_mark_not_link [OF ms, of None] by (auto split: if_splits)
    also have "\<dots> \<longleftrightarrow> last rs = None"
      using rs by (rule mem_last_only)
    finally show ?thesis .
  qed
  have "count_list tr Disconnect = count_list (marks tr) Disconnect"
    by (simp add: count_list_marks)
  also have "\<dots> = (if last rs = None then 1 else 0)"
    using m is_mark_not_link [OF ms] by (auto simp: count_list_0)
  finally show ?thesis using c l c0 connected(1,2) by simp
qed

lemma map_filter_marks:
  "List.map_filter phase_of (marks w) = List.map_filter phase_of w"
proof (induction w)
  case Nil
  then show ?case by (simp add: map_filter_simps)
next
  case (Cons e w)
  then show ?case by (cases e) (simp_all add: map_filter_simps)
qed

lemma steps_marks: "steps (marks w) = steps w"
proof (induction w)
  case Nil
  then show ?case by (simp add: steps_def map_filter_simps)
next
  case (Cons e w)
  then show ?case by (cases e) (simp_all add: steps_def map_filter_simps)
qed

lemma map_filter_append: "List.map_filter f (xs @ ys) = List.map_filter f xs @ List.map_filter f ys"
  by (simp add: List.map_filter_def)

lemma phases_Connects: "List.map_filter phase_of (map Connect rs) = replicate (length rs) Connecting"
  by (induction rs) (simp_all add: map_filter_simps)

lemma steps_Connects: "List.map_filter entered (map Connect rs) = []"
  by (induction rs) (simp_all add: map_filter_simps)

lemma remdups_adj_replicate_append:
  "0 < n \<Longrightarrow> ys \<noteq> [] \<Longrightarrow> hd ys \<noteq> x \<Longrightarrow>
   remdups_adj (replicate n x @ ys) = x # remdups_adj ys"
proof (induction n)
  case 0
  then show ?case by simp
next
  case (Suc n)
  then show ?case by (cases n; cases ys) auto
qed

subsection \<open>The run of the concrete configuration\<close>

lemma decode_config0: "decodeConfig config0 = Inr provisioner0"
  by (simp add: config0_def decodeConfig_def assert_string_def assert_int_def
      assert_bool_def getStringList_def getStringMap_def provisioner0_def)

lemma inventory_dir:
  "filepath_Dir inventoryFilePath = ''/tmp/ansible-terraform-bootstrap/.inventory-ansible-bootstrap''"
  by (simp add: inventoryFilePath_eq filepath_Dir_def filepath_Clean_def)

lemma bootstrap_parent: "filepath_Dir bootstrapDirectory = ''/tmp''"
  by (simp add: bootstrapDirectory_def filepath_Dir_def filepath_Clean_def)

lemma playbook0_paths:
  "filepath_Dir ''/home/op/ansible/playbook.yaml'' = ''/home/op/ansible''"
  "filepath_Join [bootstrapDirectory, filepath_Base ''/home/op/ansible/playbook.yaml''] =
     ''/tmp/ansible-terraform-bootstrap/playbook.yaml''"
  by (simp_all add: bootstrapDirectory_def filepath_Dir_def filepath_Base_def filepath_Clean_def
      strip_trailing_slashes.simps)

lemma inventory0_rendered:
  "template_Execute hosts_template (provisioner_data provisioner0) = Inr inventory0"
  by (simp add: render_inventory provisioner0_def inventory0_def host_lines_def group_section_def)

lemma command0_built:
  "commandBuilder (json_Marshal env0) provisioner0 ''/tmp/ansible-terraform-bootstrap/playbook.yaml'' [] =
     Inr command0"
  by (simp add: commandBuilder_def provisioner0_def command0_def inventoryFilePath_eq)

lemma connect0: "retryFunc env0 (comm_Timeout env0) (connect env0) [] = (None, [Connect None])"
  by (simp add: retryFunc_def retry_loop.simps connect_def env0_def)

lemma command0_neq: "''sudo '' @ command0 \<noteq> ''sudo rm -rf /tmp''"
  by (simp add: command0_def)

lemma provisioner0_fields:
  "Playbook provisioner0 = ''/home/op/ansible/playbook.yaml''"
  "VaultPasswordFile provisioner0 = []"
  "useSudo provisioner0 = True"
  "skipInstall provisioner0 = True"
  "skipCleanup provisioner0 = False"
  by (simp_all add: provisioner0_def)

lemma env0_fields:
  "homedir_Expand env0 = Inr"
  "os_Stat env0 = (\<lambda>w path. None)"
  "communicator_New env0 = None"
  "comm_UploadDir env0 = (\<lambda>w dst src. None)"
  "comm_Upload env0 = (\<lambda>w path content. None)"
  "comm_Start env0 = (\<lambda>w command.
               if command = ''sudo rm -rf /tmp''
               then Inr \<lparr> ExitStatus = 1, relayed = [''rm: cannot remove''] \<rparr>
               else Inr \<lparr> ExitStatus = 0, relayed = [] \<rparr>)"
  by (simp_all add: env0_def)

lemma resolvePath0: "resolvePath env0 path w = (Inr path, w @ [Stat path])"
  by (simp add: resolvePath_def env0_fields)

lemma runCommand0:
  "runCommand provisioner0 env0 c w =
     (if c = ''rm -rf /tmp''
      then (Some (NonZeroExit ''sudo rm -rf /tmp'' 1),
            w @ [Start ''sudo rm -rf /tmp'', Output ''rm: cannot remove'', Wait 1])
      else (None, w @ [Start (''sudo '' @ c), Wait 0]))"
  by (simp add: runCommand_def env0_fields provisioner0_fields Let_def)

lemma uploadInventory0:
  "uploadInventory provisioner0 env0 w =
     (None, w @
      [Output ''Generating ansible inventory...'',
       Start ''sudo mkdir -p /tmp/ansible-terraform-bootstrap/.inventory-ansible-bootstrap'', Wait 0,
       Start ''sudo chmod 0777 /tmp/ansible-terraform-bootstrap/.inventory-ansible-bootstrap'', Wait 0,
       Output (''Uploading ansible inventory to '' @
               ''/tmp/ansible-terraform-bootstrap/.inventory-ansible-bootstrap/hosts...''),
       Upload ''/tmp/ansible-terraform-bootstrap/.inventory-ansible-bootstrap/hosts'' inventory0,
       Output ''Ansible inventory uploaded.''])"
  unfolding uploadInventory_def inventory0_rendered inventory_dir Let_def run_commands_def
  by (simp add: runCommand0 env0_fields inventoryFilePath_eq)

lemma cleanup0:
  "cleanupAfterBootstrap provisioner0 env0 w =
     (None, w @ [Output ''Cleaning up after bootstrap...'', Start ''sudo rm -rf /tmp'',
                 Output ''rm: cannot remove'', Wait 1, Output ''Cleanup complete.''])"
  unfolding cleanupAfterBootstrap_def bootstrap_parent Let_def
  by (simp add: runCommand0)

lemma command0_not_rm: "command0 \<noteq> ''rm -rf /tmp''"
  by (simp add: command0_def)

lemma deploy0:
  "deployAnsibleModule provisioner0 env0 [Connect None] = (None, butlast trace0)"
  unfolding deployAnsibleModule_def provisioner0_fields Let_def
  apply (simp only: traced_val_def resolvePath0 prod.case sum.case playbook0_paths)
  apply (simp add: traced_def traced_val_def env0_fields command0_built uploadInventory0
      runCommand0 cleanup0 command0_not_rm error_of_def trace0_def bootstrapDirectory_def)
  done

lemma applyFn_config0: "applyFn config0 env0 = (Inr None, trace0)"
proof -
  have "trace0 = butlast trace0 @ [Disconnect]"
    by (simp add: trace0_def)
  then show ?thesis
    by (simp add: applyFn_def decode_config0 env0_fields connect0 provisioner0_fields deploy0)
qed

subsection \<open>The commands that prepare an upload\<close>

text \<open>
  C10. Both preparation commands (\<open>mkdir -p\<close> and \<open>chmod 0777\<close> of the target directory)
  are run one after the other, and what \<open>runCommand\<close> returns for them is dropped. In
  \<open>uploadInventory\<close> the upload of the inventory is attempted right after them, whatever
  they did, and the result of \<open>uploadInventory\<close> is the result of that upload. In
  \<open>uploadVaultPasswordFile\<close> the file is opened right after them and, when it opens, the
  upload is attempted; the result is decided by opening the file and by the upload.
\<close>

theorem preparation_errors_discarded:
  "(\<exists>pre rest.
      pre = run_commands p env
              [''mkdir -p '' @ filepath_Dir inventoryFilePath,
               ''chmod 0777 '' @ filepath_Dir inventoryFilePath]
              (w @ [Output ''Generating ansible inventory...'']) @
            [Output (''Uploading ansible inventory to '' @ inventoryFilePath @ ''...'')] \<and>
      fst (uploadInventory p env w) = comm_Upload env pre inventoryFilePath (inventory_text p) \<and>
      snd (uploadInventory p env w) = pre @ Upload inventoryFilePath (inventory_text p) # rest) \<and>
   (\<exists>pre.
      pre = run_commands p env
              [''mkdir -p '' @ filepath_Dir (vault_target path),
               ''chmod 0777 '' @ filepath_Dir (vault_target path)] w @
            [Output (''Uploading ansible vault password file to '' @ [CHR 0x27] @
                     vault_target path @ [CHR 0x27] @ ''...'')] \<and>
      (case os_Open env pre path of
         Inl err \<Rightarrow> uploadVaultPasswordFile p env path w = (Inl err, pre @ [Open path])
       | Inr file \<Rightarrow>
           fst (uploadVaultPasswordFile p env path w) =
             (case comm_Upload env (pre @ [Open path]) (vault_target path) file of
                Some err \<Rightarrow> Inl err
              | None \<Rightarrow> Inr (vault_target path)) \<and>
           (\<exists>rest. snd (uploadVaultPasswordFile p env path w) =
                     pre @ Open path # Upload (vault_target path) file # rest))) \<and>
   run_commands p env [a, b] w = snd (runCommand p env b (snd (runCommand p env a w)))"
proof (intro conjI)
  show "\<exists>pre rest.
      pre = run_commands p env
              [''mkdir -p '' @ filepath_Dir inventoryFilePath,
               ''chmod 0777 '' @ filepath_Dir inventoryFilePath]
              (w @ [Output ''Generating ansible inventory...'']) @
            [Output (''Uploading ansible inventory to '' @ inventoryFilePath @ ''...'')] \<and>
      fst (uploadInventory p env w) = comm_Upload env pre inventoryFilePath (inventory_text p) \<and>
      snd (uploadInventory p env w) = pre @ Upload inventoryFilePath (inventory_text p) # rest"
    unfolding uploadInventory_def render_inventory Let_def inventory_text_def
    by (simp split: option.split)
next
  show "\<exists>pre.
      pre = run_commands p env
              [''mkdir -p '' @ filepath_Dir (vault_target path),
               ''chmod 0777 '' @ filepath_Dir (vault_target path)] w @
            [Output (''Uploading ansible vault password file to '' @ [CHR 0x27] @
                     vault_target path @ [CHR 0x27] @ ''...'')] \<and>
      (case os_Open env pre path of
         Inl err \<Rightarrow> uploadVaultPasswordFile p env path w = (Inl err, pre @ [Open path])
       | Inr file \<Rightarrow>
           fst (uploadVaultPasswordFile p env path w) =
             (case comm_Upload env (pre @ [Open path]) (vault_target path) file of
                Some err \<Rightarrow> Inl err
              | None \<Rightarrow> Inr (vault_target path)) \<and>
           (\<exists>rest. snd (uploadVaultPasswordFile p env path w) =
                     pre @ Open path # Upload (vault_target path) file # rest))"
    unfolding uploadVaultPasswordFile_def Let_def vault_target_def [symmetric]
    by (simp split: option.split sum.split)
next
  show "run_commands p env [a, b] w = snd (runCommand p env b (snd (runCommand p env a w)))"
    by (simp add: run_commands_def)
qed

subsection \<open>The order of the workflow\<close>

lemma before_marks: "\<not> plain a \<Longrightarrow> \<not> plain b \<Longrightarrow> before a b (marks w) \<longleftrightarrow> before a b w"
  unfolding before_def by (induction w) auto

lemma takeWhile_Connects:
  "(\<And>r. b \<noteq> Connect r) \<Longrightarrow>
   takeWhile (\<lambda>e. e \<noteq> b) (map Connect rs @ ys) = map Connect rs @ takeWhile (\<lambda>e. e \<noteq> b) ys"
  by (induction rs) auto

text \<open>
  C7, amended. With installation skipped, cleanup not skipped and the built command
  exiting with status 0, the steps are: resolving the playbook path, uploading its
  directory, (with a vault password file: resolving and uploading it,) building the
  command, uploading the inventory, running the command, cleaning up. In the phases of
  the specification this is Connecting, UploadingArtifacts, BuildingCommand,
  UploadingArtifacts again, Running, CleaningUp, Done, and Installing is never entered:
  the inventory is rendered and uploaded after the command is built, and its upload is
  complete before the command runs.
\<close>

theorem workflow_phase_order:
  assumes "applyFn d env = (r, tr)" and "decodeConfig d = Inr p"
    and "skipInstall p" and "\<not> skipCleanup p"
    and "Leave Step_runCommand None \<in> set tr"
  shows "phases tr = [Connecting, UploadingArtifacts, BuildingCommand, UploadingArtifacts,
                      Running, CleaningUp, Done] \<and>
         steps tr = [Step_resolvePath, Step_UploadDir] @
                    (if VaultPasswordFile p \<noteq> []
                     then [Step_resolvePath, Step_uploadVaultPasswordFile] else []) @
                    [Step_commandBuilder, Step_uploadInventory, Step_runCommand,
                     Step_cleanupAfterBootstrap] \<and>
         before (Leave Step_commandBuilder None) (Enter Step_uploadInventory) tr \<and>
         before (Leave Step_uploadInventory None) (Enter Step_runCommand) tr"
  using assms(1)
proof (cases rule: applyFn_cases)
  case unconnected
  with assms(5) show ?thesis by simp
next
  case (connected p' r0)
  with assms(2) have [simp]: "p' = p" by simp
  from assms(1) [unfolded connected(3)] connected(1,2)
  obtain rs ms where m: "marks tr = map Connect rs @ (if last rs = None then ms @ [Disconnect] else [])"
    and rs: "rs \<noteq> []"
    and ok: "r0 = None \<longrightarrow> last rs = None \<and>
       ms = (if \<not> skipInstall p'
             then [Enter Step_installAnsible, Leave Step_installAnsible None] else []) @
            deploy_success_marks p'"
    and f: "r0 \<noteq> None \<longrightarrow> Leave Step_runCommand None \<notin> set ms"
    by (rule applyFn_marksE)
  from assms(5) have "Leave Step_runCommand None \<in> set (marks tr)"
    by (simp add: mem_marks)
  with m have "Leave Step_runCommand None \<in> set ms"
    by (auto split: if_splits)
  with f have "r0 = None" by auto
  with ok assms(3) have l: "last rs = None" and ms: "ms = deploy_success_marks p" by simp_all
  from m l ms have mt: "marks tr = map Connect rs @ deploy_success_marks p @ [Disconnect]"
    by simp
  from rs have n: "0 < length rs" by simp
  have "phases tr = remdups_adj (List.map_filter phase_of (marks tr))"
    by (simp add: phases_def map_filter_marks)
  also have "\<dots> = [Connecting, UploadingArtifacts, BuildingCommand, UploadingArtifacts,
                      Running, CleaningUp, Done]"
    using assms(4) n
    by (simp add: mt map_filter_append phases_Connects deploy_success_marks_def
        map_filter_simps remdups_adj_replicate_append)
  finally have ph: "phases tr = [Connecting, UploadingArtifacts, BuildingCommand,
      UploadingArtifacts, Running, CleaningUp, Done]" .
  have "steps tr = steps (marks tr)" by (simp add: steps_marks)
  also have "\<dots> = [Step_resolvePath, Step_UploadDir] @
                    (if VaultPasswordFile p \<noteq> []
                     then [Step_resolvePath, Step_uploadVaultPasswordFile] else []) @
                    [Step_commandBuilder, Step_uploadInventory, Step_runCommand,
                     Step_cleanupAfterBootstrap]"
    using assms(4)
    by (simp add: mt steps_def map_filter_append steps_Connects deploy_success_marks_def
        map_filter_simps)
  finally have st: "steps tr = [Step_resolvePath, Step_UploadDir] @
                    (if VaultPasswordFile p \<noteq> []
                     then [Step_resolvePath, Step_uploadVaultPasswordFile] else []) @
                    [Step_commandBuilder, Step_uploadInventory, Step_runCommand,
                     Step_cleanupAfterBootstrap]" .
  have "before (Leave Step_commandBuilder None) (Enter Step_uploadInventory) (marks tr)"
    unfolding before_def mt by (simp add: takeWhile_Connects deploy_success_marks_def)
  then have b1: "before (Leave Step_commandBuilder None) (Enter Step_uploadInventory) tr"
    by (simp add: before_marks)
  have "before (Leave Step_uploadInventory None) (Enter Step_runCommand) (marks tr)"
    unfolding before_def mt by (simp add: takeWhile_Connects deploy_success_marks_def)
  then have b2: "before (Leave Step_uploadInventory None) (Enter Step_runCommand) tr"
    by (simp add: before_marks)
  from ph st b1 b2 show ?thesis by simp
qed

theorem workflow_phase_order_witness:
  "phases (snd (applyFn config0 env0)) =
     [Connecting, UploadingArtifacts, BuildingCommand, UploadingArtifacts, Running, CleaningUp, Done]
   \<and> steps (snd (applyFn config0 env0)) =
     [Step_resolvePath, Step_UploadDir, Step_commandBuilder, Step_uploadInventory,
      Step_runCommand, Step_cleanupAfterBootstrap]"
proof -
  have a: "applyFn config0 env0 = (fst (applyFn config0 env0), snd (applyFn config0 env0))"
    by simp
  have b: "skipInstall provisioner0" "\<not> skipCleanup provisioner0"
    by (simp_all add: provisioner0_def)
  have c: "Leave Step_runCommand None \<in> set (snd (applyFn config0 env0))"
    by (simp add: applyFn_config0 trace0_def)
  from workflow_phase_order [OF a decode_config0 b c] show ?thesis
    by (simp add: provisioner0_def)
qed

text \<open>
  C7, as the specification states it, fails on the run of the concrete configuration
  (installation skipped, cleanup not skipped, the built command exits with status 0):
  its phases are not the six of the claim, and the command is built before the upload
  of the inventory starts, not after it is complete.
\<close>

theorem workflow_phase_order_counterexample:
  "applyFn config0 env0 = (Inr None, trace0) \<and>
   decodeConfig config0 = Inr provisioner0 \<and>
   skipInstall provisioner0 \<and> \<not> skipCleanup provisioner0 \<and>
   Leave Step_runCommand None \<in> set trace0 \<and>
   phases trace0 \<noteq> [Connecting, UploadingArtifacts, BuildingCommand, Running, CleaningUp, Done] \<and>
   \<not> before (Leave Step_uploadInventory None) (Enter Step_commandBuilder) trace0"
  by (simp add: applyFn_config0 decode_config0 provisioner0_def)
     (simp add: trace0_def phases_def map_filter_simps before_def)











lemma applyFn_unreachable:
  "applyFn config0 env_unreachable =
     (Inr (Some (External ''dial tcp: attempt 1'')),
      [Connect (Some (External ''dial tcp: attempt 0'')), Log (External ''dial tcp: attempt 0''),
       Connect (Some (External ''dial tcp: attempt 1'')), Log (External ''dial tcp: attempt 1'')])"
  by (simp add: applyFn_def decode_config0 retryFunc_def retry_loop.simps connect_def
      env_unreachable_def env0_def three_seconds_def fmt_d_def decimal.simps digit_char_def)

text \<open>A run in which no command can be started: the built command fails.\<close>

lemma env_refused_fields:
  "homedir_Expand env_refused = Inr"
  "os_Stat env_refused = (\<lambda>w path. None)"
  "communicator_New env_refused = None"
  "comm_UploadDir env_refused = (\<lambda>w dst src. None)"
  "comm_Upload env_refused = (\<lambda>w path content. None)"
  "json_Marshal env_refused = json_Marshal env0"
  "comm_Timeout env_refused = comm_Timeout env0"
  "select_finish env_refused = select_finish env0"
  by (simp_all add: env_refused_def env0_def)

lemma connect_refused:
  "retryFunc env_refused (comm_Timeout env_refused) (connect env_refused) [] = (None, [Connect None])"
  by (simp add: retryFunc_def retry_loop.simps connect_def env_refused_def env0_def)

lemma runCommand_refused:
  "runCommand provisioner0 env_refused c w =
     (Some (ErrorExecutingCommand (''sudo '' @ c) (External ''ssh: session closed'')),
      w @ [Start (''sudo '' @ c)])"
  by (simp add: runCommand_def env_refused_def provisioner0_def Let_def)

lemma uploadInventory_refused:
  "uploadInventory provisioner0 env_refused w =
     (None, w @
      [Output ''Generating ansible inventory...'',
       Start ''sudo mkdir -p /tmp/ansible-terraform-bootstrap/.inventory-ansible-bootstrap'',
       Start ''sudo chmod 0777 /tmp/ansible-terraform-bootstrap/.inventory-ansible-bootstrap'',
       Output (''Uploading ansible inventory to '' @
               ''/tmp/ansible-terraform-bootstrap/.inventory-ansible-bootstrap/hosts...''),
       Upload ''/tmp/ansible-terraform-bootstrap/.inventory-ansible-bootstrap/hosts'' inventory0,
       Output ''Ansible inventory uploaded.''])"
  unfolding uploadInventory_def inventory0_rendered inventory_dir Let_def run_commands_def
  by (simp add: runCommand_refused env_refused_fields inventoryFilePath_eq)

lemma deploy_refused:
  "deployAnsibleModule provisioner0 env_refused [Connect None] =
     (Some (ErrorExecutingCommand (''sudo '' @ command0) (External ''ssh: session closed'')),
      butlast (butlast trace_refused))"
  unfolding deployAnsibleModule_def provisioner0_fields Let_def
  apply (simp only: traced_val_def resolvePath_def env_refused_fields prod.case sum.case
      option.case playbook0_paths Let_def)
  apply (simp add: traced_def traced_val_def env_refused_fields command0_built
      uploadInventory_refused runCommand_refused error_of_def trace_refused_def
      bootstrapDirectory_def)
  done

lemma applyFn_refused:
  "applyFn config0 env_refused =
     (Inr (Some (ErrorExecutingCommand (''sudo '' @ command0) (External ''ssh: session closed''))),
      trace_refused)"
proof -
  have "trace_refused = butlast (butlast trace_refused) @
      [OutputError (ErrorExecutingCommand (''sudo '' @ command0) (External ''ssh: session closed'')),
       Disconnect]"
    by (simp add: trace_refused_def)
  then show ?thesis
    by (simp add: applyFn_def decode_config0 env_refused_fields(3) connect_refused
        provisioner0_fields deploy_refused)
qed

lemma connect_unreachable:
  "fst (retryFunc env_unreachable (comm_Timeout env_unreachable) (connect env_unreachable) []) =
     Some (External ''dial tcp: attempt 1'')"
  by (simp add: retryFunc_def retry_loop.simps connect_def
      env_unreachable_def env0_def three_seconds_def fmt_d_def decimal.simps digit_char_def)

theorem disconnect_exactly_once_witness:
  "count_list (snd (applyFn config0 env0)) Disconnect = 1 \<and>
   last (snd (applyFn config0 env0)) = Disconnect \<and>
   count_list (snd (applyFn config0 env_refused)) Disconnect = 1 \<and>
   last (snd (applyFn config0 env_refused)) = Disconnect \<and>
   count_list (snd (applyFn config0 env_unreachable)) Disconnect = 0"
proof -
  have a: "applyFn config0 env = (fst (applyFn config0 env), snd (applyFn config0 env))" for env
    by simp
  from disconnect_exactly_once [OF a [of env0]]
  have "count_list (snd (applyFn config0 env0)) Disconnect = 1 \<and>
        last (snd (applyFn config0 env0)) = Disconnect"
    by (simp add: decode_config0 env0_fields connect0)
  moreover from disconnect_exactly_once [OF a [of env_refused]]
  have "count_list (snd (applyFn config0 env_refused)) Disconnect = 1 \<and>
        last (snd (applyFn config0 env_refused)) = Disconnect"
    by (simp add: decode_config0 env_refused_fields(3) connect_refused)
  moreover from disconnect_exactly_once [OF a [of env_unreachable]]
  have "count_list (snd (applyFn config0 env_unreachable)) Disconnect = 0"
    by (simp add: connect_unreachable)
  ultimately show ?thesis by simp
qed

theorem preparation_errors_discarded_witness:
  "uploadInventory provisioner0 env_refused [] =
     (None,
      [Output ''Generating ansible inventory...'',
       Start ''sudo mkdir -p /tmp/ansible-terraform-bootstrap/.inventory-ansible-bootstrap'',
       Start ''sudo chmod 0777 /tmp/ansible-terraform-bootstrap/.inventory-ansible-bootstrap'',
       Output (''Uploading ansible inventory to '' @
               ''/tmp/ansible-terraform-bootstrap/.inventory-ansible-bootstrap/hosts...''),
       Upload ''/tmp/ansible-terraform-bootstrap/.inventory-ansible-bootstrap/hosts'' inventory0,
       Output ''Ansible inventory uploaded.''])"
proof -
  have r: "\<And>c w. snd (runCommand provisioner0 env_refused c w) = w @ [Start (''sudo '' @ c)]"
    by (simp add: runCommand_def env_refused_def provisioner0_def Let_def)
  have i: "inventory_text provisioner0 = inventory0"
    by (simp add: inventory_text_def provisioner0_def inventory0_def host_lines_def
        group_section_def)
  have u: "comm_Upload env_refused = (\<lambda>w path content. None)"
    by (simp add: env_refused_def env0_def)
  from preparation_errors_discarded [of provisioner0 env_refused "[]" "[]" "[]" "[]"]
  obtain pre rest where
    "pre = run_commands provisioner0 env_refused
              [''mkdir -p '' @ filepath_Dir inventoryFilePath,
               ''chmod 0777 '' @ filepath_Dir inventoryFilePath]
              ([] @ [Output ''Generating ansible inventory...'']) @
            [Output (''Uploading ansible inventory to '' @ inventoryFilePath @ ''...'')]"
    "fst (uploadInventory provisioner0 env_refused []) =
       comm_Upload env_refused pre inventoryFilePath (inventory_text provisioner0)"
    "snd (uploadInventory provisioner0 env_refused []) =
       pre @ Upload inventoryFilePath (inventory_text provisioner0) # rest"
    by (elim conjE exE)
  moreover have "snd (uploadInventory provisioner0 env_refused []) =
      [Output ''Generating ansible inventory...'',
       Start ''sudo mkdir -p /tmp/ansible-terraform-bootstrap/.inventory-ansible-bootstrap'',
       Start ''sudo chmod 0777 /tmp/ansible-terraform-bootstrap/.inventory-ansible-bootstrap'',
       Output (''Uploading ansible inventory to '' @
               ''/tmp/ansible-terraform-bootstrap/.inventory-ansible-bootstrap/hosts...''),
       Upload ''/tmp/ansible-terraform-bootstrap/.inventory-ansible-bootstrap/hosts'' inventory0,
       Output ''Ansible inventory uploaded.'']"
    unfolding uploadInventory_def inventory0_rendered inventory_dir Let_def run_commands_def
    by (simp add: r u inventoryFilePath_eq)
  ultimately show ?thesis
    by (simp add: u prod_eq_iff)
qed

end
